theory Spec2Isabelle
  imports Main "HOL-Library.Word" "HOL-Library.Sublist"
begin

section \<open>Time, errors and the outside world\<close>

text \<open>
  A Go \<open>time.Time\<close> is modelled by the instant it denotes: the number of nanoseconds
  since Go's zero time (January 1, year 1, 00:00:00 UTC), so that \<open>time.Time{}\<close> is 0.
  A \<open>time.Duration\<close> is a signed 64-bit count of nanoseconds; its arithmetic wraps.
  A Go \<open>error\<close> is modelled by its message; \<open>nil\<close> is \<open>None\<close>.
\<close>

type_synonym time = int
type_synonym duration = "64 word"
type_synonym err = string

definition Second :: duration where
  "Second = 1000000000"

definition Minute :: duration where
  "Minute = 60 * Second"

definition IsZero :: "time \<Rightarrow> bool" where
  "IsZero t \<longleftrightarrow> t = 0"

definition Add :: "time \<Rightarrow> duration \<Rightarrow> time" where
  "Add t d = t + sint d"

definition After :: "time \<Rightarrow> time \<Rightarrow> bool" where
  "After t u \<longleftrightarrow> u < t"




text \<open>\<open>%d\<close> of \<open>fmt\<close>: the decimal digits of an integer.\<close>

definition digit :: "nat \<Rightarrow> char" where
  "digit d = ''0123456789'' ! d"

fun show_nat :: "nat \<Rightarrow> string" where
  "show_nat n = (if n < 10 then [digit n] else show_nat (n div 10) @ [digit (n mod 10)])"

declare show_nat.simps [simp del]

definition show_int :: "int \<Rightarrow> string" where
  "show_int i = (if i < 0 then CHR ''-'' # show_nat (nat (- i)) else show_nat (nat i))"

section \<open>Package config: the credential store\<close>

definition DefaultAPIURL :: string where
  "DefaultAPIURL = ''https://api.kamui-platform.com''"

record Config =
  AccessToken :: string
  RefreshToken :: string
  ExpiresAt :: time
  APIURL :: string
  ClientID :: string
  ClientSecret :: string

text \<open>
  A Go string is a sequence of bytes; \<open>encoding/json\<close> writes and reads it as UTF-8.
  \<open>rune_width s\<close> is the number of bytes of the well-formed UTF-8 sequence at the head
  of \<open>s\<close>, as \<open>utf8.DecodeRuneInString\<close> finds it, and 0 when there is none (the
  string is empty, or the decoder reports \<open>RuneError\<close> of width 1). The second byte of a
  three- or four-byte sequence has a narrower range after the lead bytes E0, ED, F0 and F4
  (no overlong forms, no surrogates, nothing above U+10FFFF).
\<close>

definition byte :: "char \<Rightarrow> nat" where
  "byte c = of_char c"

definition cont :: "char \<Rightarrow> bool" where
  "cont c \<longleftrightarrow> 128 \<le> byte c \<and> byte c \<le> 191"

definition two :: "char \<Rightarrow> string \<Rightarrow> bool" where
  "two a s \<longleftrightarrow> 194 \<le> byte a \<and> byte a \<le> 223 \<and>
     (case s of b # r \<Rightarrow> cont b | [] \<Rightarrow> False)"

definition three :: "char \<Rightarrow> string \<Rightarrow> bool" where
  "three a s \<longleftrightarrow> 224 \<le> byte a \<and> byte a \<le> 239 \<and>
     (case s of
        b # c # r \<Rightarrow>
          (if byte a = 224 then 160 else 128) \<le> byte b \<and>
          byte b \<le> (if byte a = 237 then 159 else 191) \<and> cont c
      | _ \<Rightarrow> False)"

definition four :: "char \<Rightarrow> string \<Rightarrow> bool" where
  "four a s \<longleftrightarrow> 240 \<le> byte a \<and> byte a \<le> 244 \<and>
     (case s of
        b # c # d # r \<Rightarrow>
          (if byte a = 240 then 144 else 128) \<le> byte b \<and>
          byte b \<le> (if byte a = 244 then 143 else 191) \<and> cont c \<and> cont d
      | _ \<Rightarrow> False)"

fun rune_width :: "string \<Rightarrow> nat" where
  "rune_width [] = 0"
| "rune_width (a # s) =
     (if byte a < 128 then 1
      else if two a s then 2
      else if three a s then 3
      else if four a s then 4
      else 0)"

declare rune_width.simps [simp del]

text \<open>U+FFFD, the replacement character, in UTF-8.\<close>

definition replacement :: string where
  "replacement = [CHR 0xEF, CHR 0xBF, CHR 0xBD]"

text \<open>
  What a string is after \<open>json.Marshal\<close> has written it and \<open>json.Unmarshal\<close> has
  read it back: the well-formed sequences as they are, and U+FFFD for every other byte.
\<close>

function json_string :: "string \<Rightarrow> string" where
  "json_string [] = []"
| "json_string (a # s) =
     (if rune_width (a # s) = 0 then replacement @ json_string s
      else take (rune_width (a # s)) (a # s) @ json_string (drop (rune_width (a # s)) (a # s)))"
  by pat_completeness auto
termination
  by (relation "measure length") auto

text \<open>\<open>utf8.ValidString\<close>: the string is a sequence of well-formed UTF-8 sequences.\<close>

function utf8_valid :: "string \<Rightarrow> bool" where
  "utf8_valid [] \<longleftrightarrow> True"
| "utf8_valid (a # s) \<longleftrightarrow>
     (if rune_width (a # s) = 0 then False
      else utf8_valid (drop (rune_width (a # s)) (a # s)))"
  by pat_completeness auto
termination
  by (relation "measure length") auto

declare json_string.simps [simp del] utf8_valid.simps [simp del]

definition json_reload :: "Config \<Rightarrow> Config" where
  "json_reload c =
     c\<lparr>AccessToken := json_string (AccessToken c),
       RefreshToken := json_string (RefreshToken c),
       APIURL := json_string (APIURL c),
       ClientID := json_string (ClientID c),
       ClientSecret := json_string (ClientSecret c)\<rparr>"

text \<open>
  The file at the manager's \<open>configPath\<close>. \<open>Holds c\<close> is the file with the JSON text
  that \<open>json.MarshalIndent\<close> writes for the record \<open>c\<close>; \<open>json.Unmarshal\<close> reads
  that text as \<open>json_reload c\<close>. The other cases are the ways \<open>os.ReadFile\<close> and
  \<open>json.Unmarshal\<close> fail.
\<close>

datatype file_state =
    NotExist
  | Unreadable err
  | Malformed err
  | Holds Config

datatype payload =
    Form "(string \<times> string) list"
  | RegistrationJSON string "string list" "string list" string

record http_request =
  url :: string
  content_type :: string
  body :: payload

datatype http_reply =
    NoReply err
  | Reply int string

record TokenResponse =
  resp_AccessToken :: string
  resp_TokenType :: string
  resp_ExpiresIn :: "64 word"
  resp_RefreshToken :: string
  resp_Scope :: string

record RegistrationResponse =
  reg_ClientID :: string
  reg_ClientSecret :: string

text \<open>
  What the select statement at the end of \<open>Login\<close> receives first: the query of the
  first request that reaches the handler of \<open>/callback\<close> (which then sends on one of the
  two channels), the caller's cancellation, or the five-minute timeout.
\<close>

datatype wakeup =
    Callback "(string \<times> string) list"
  | Cancelled err
  | TimedOut

text \<open>
  Everything the program does to the outside, in the order it happens. \<open>Printed s\<close> is a
  \<open>Println\<close> of the line \<open>s\<close> or a \<open>Printf\<close> that writes \<open>s\<close>.
\<close>

datatype event =
    Sent http_request
  | Wrote Config
  | Removed
  | Printed string
  | Bound int
  | Released int
  | Serving int string
  | Shutdown int
  | Opened string
  | Replied int string

text \<open>
  The collaborators outside the repository: the clock, the operating system, the HTTP
  peer, and the library functions (\<open>encoding/json\<close>, \<open>net/url\<close>, \<open>crypto/rand\<close>)
  whose results the code only passes on.
  \<^item> \<open>clock e n\<close> is what the \<open>n\<close>-th call of \<open>time.Now()\<close> returns;
  \<^item> \<open>write_fault\<close> is the error of \<open>os.MkdirAll\<close>, \<open>json.MarshalIndent\<close>,
    \<open>os.WriteFile\<close> or \<open>os.Remove\<close>, if the write is refused;
  \<^item> \<open>url_fault u\<close> is the error of \<open>http.NewRequestWithContext\<close> for the URL \<open>u\<close>;
  \<^item> \<open>roundtrip\<close> is the peer: no reply (a transport error, a timeout, a cancelled
    context) or a status and a body;
  \<^item> \<open>json_token\<close> and \<open>json_registration\<close> decode a response body;
  \<^item> \<open>port_taken p\<close> holds when \<open>net.Listen\<close> on port \<open>p\<close> fails for a reason outside
    this process;
  \<^item> \<open>rand_Read\<close> is the outcome of \<open>rand.Read\<close> on the 16-byte buffer;
  \<^item> \<open>values_Encode\<close> is \<open>url.Values.Encode\<close>;
  \<^item> \<open>browser_fault\<close> is the error of \<open>browser.OpenURL\<close>, if any;
  \<^item> \<open>first_wakeup\<close> is the first of the four events \<open>Login\<close> waits for.
\<close>

record env =
  clock :: "nat \<Rightarrow> time"
  write_fault :: "err option"
  url_fault :: "string \<Rightarrow> err option"
  roundtrip :: "http_request \<Rightarrow> http_reply"
  json_token :: "string \<Rightarrow> err + TokenResponse"
  json_registration :: "string \<Rightarrow> err + RegistrationResponse"
  port_taken :: "int \<Rightarrow> bool"
  rand_Read :: "err + 8 word list"
  values_Encode :: "(string \<times> string) list \<Rightarrow> string"
  browser_fault :: "err option"
  first_wakeup :: wakeup

record world =
  disk :: file_state
  ticks :: nat
  bound :: "int list"
  trace :: "event list"

definition emit :: "event \<Rightarrow> world \<Rightarrow> world" where
  "emit ev w = w\<lparr>trace := trace w @ [ev]\<rparr>"

text \<open>\<open>time.Now()\<close>: the next reading of the clock.\<close>

definition Now :: "env \<Rightarrow> world \<Rightarrow> time \<times> world" where
  "Now e w = (clock e (ticks w), w\<lparr>ticks := Suc (ticks w)\<rparr>)"

definition Load :: "world \<Rightarrow> err + Config" where
  "Load w =
     (case disk w of
        NotExist \<Rightarrow>
          Inr \<lparr>AccessToken = [], RefreshToken = [], ExpiresAt = 0, APIURL = DefaultAPIURL,
               ClientID = [], ClientSecret = []\<rparr>
      | Unreadable x \<Rightarrow> Inl x
      | Malformed x \<Rightarrow> Inl x
      | Holds c \<Rightarrow>
          Inr (if APIURL (json_reload c) = [] then (json_reload c)\<lparr>APIURL := DefaultAPIURL\<rparr>
               else json_reload c))"

text \<open>
  \<open>Save\<close>. \<open>write_fault\<close> stands for the error of any of its three calls. One of them
  depends on the record: \<open>json.MarshalIndent\<close> refuses an expiry whose year is outside
  0..9999. The model does not derive that refusal from the record; the theorem on saving and
  loading takes the expiry inside that range.
\<close>

definition Save :: "env \<Rightarrow> Config \<Rightarrow> world \<Rightarrow> err option \<times> world" where
  "Save e config w =
     (case write_fault e of
        Some x \<Rightarrow> (Some x, w)
      | None \<Rightarrow> (None, emit (Wrote config) (w\<lparr>disk := Holds config\<rparr>)))"

definition Clear :: "env \<Rightarrow> world \<Rightarrow> err option \<times> world" where
  "Clear e w =
     (case Load w of
        Inl x \<Rightarrow> (Some x, w)
      | Inr config \<Rightarrow>
          Save e (config\<lparr>AccessToken := [], RefreshToken := [], ExpiresAt := 0\<rparr>) w)"

definition Delete :: "env \<Rightarrow> world \<Rightarrow> err option \<times> world" where
  "Delete e w =
     (case disk w of
        NotExist \<Rightarrow> (None, w)
      | _ \<Rightarrow> (case write_fault e of
                Some x \<Rightarrow> (Some x, w)
              | None \<Rightarrow> (None, emit Removed (w\<lparr>disk := NotExist\<rparr>))))"

definition Manager_IsLoggedIn :: "env \<Rightarrow> world \<Rightarrow> bool \<times> world" where
  "Manager_IsLoggedIn e w =
     (case Load w of
        Inl x \<Rightarrow> (False, w)
      | Inr config \<Rightarrow>
          if AccessToken config = [] then (False, w)
          else if \<not> IsZero (ExpiresAt config) then
            (case Now e w of
               (now, w1) \<Rightarrow>
                 if After (Add now Minute) (ExpiresAt config) then (False, w1) else (True, w1))
          else (True, w))"

definition Manager_GetAccessToken :: "env \<Rightarrow> world \<Rightarrow> (err + string) \<times> world" where
  "Manager_GetAccessToken e w =
     (case Load w of
        Inl x \<Rightarrow> (Inl x, w)
      | Inr config \<Rightarrow>
          if AccessToken config = [] then (Inl ''not logged in'', w)
          else if \<not> IsZero (ExpiresAt config) then
            (case Now e w of
               (now, w1) \<Rightarrow>
                 if After now (ExpiresAt config) then (Inl ''token expired'', w1)
                 else (Inr (AccessToken config), w1))
          else (Inr (AccessToken config), w))"

definition GetAPIURL :: "world \<Rightarrow> err + string" where
  "GetAPIURL w =
     (case Load w of
        Inl x \<Rightarrow> Inl x
      | Inr config \<Rightarrow> if APIURL config = [] then Inr DefaultAPIURL else Inr (APIURL config))"

definition GetClientCredentials :: "world \<Rightarrow> err + string \<times> string" where
  "GetClientCredentials w =
     (case Load w of
        Inl x \<Rightarrow> Inl x
      | Inr config \<Rightarrow> Inr (ClientID config, ClientSecret config))"

definition SaveClientCredentials ::
  "env \<Rightarrow> string \<Rightarrow> string \<Rightarrow> world \<Rightarrow> err option \<times> world" where
  "SaveClientCredentials e cid csecret w =
     (case Load w of
        Inl x \<Rightarrow> (Some x, w)
      | Inr config \<Rightarrow> Save e (config\<lparr>ClientID := cid, ClientSecret := csecret\<rparr>) w)"

definition SaveTokens ::
  "env \<Rightarrow> string \<Rightarrow> string \<Rightarrow> 64 word \<Rightarrow> world \<Rightarrow> err option \<times> world" where
  "SaveTokens e accessToken refreshToken expiresIn w =
     (case Load w of
        Inl x \<Rightarrow> (Some x, w)
      | Inr config \<Rightarrow>
          (let c1 = config\<lparr>AccessToken := accessToken, RefreshToken := refreshToken\<rparr>
           in if 0 <s expiresIn then
                (case Now e w of
                   (now, w1) \<Rightarrow> Save e (c1\<lparr>ExpiresAt := Add now (expiresIn * Second)\<rparr>) w1)
              else Save e c1 w))"

section \<open>Package auth: the OAuth flow engine\<close>

definition DefaultCallbackPort :: int where
  "DefaultCallbackPort = 9876"

definition DefaultClientName :: string where
  "DefaultClientName = ''Kamui CLI''"

record OAuthResult =
  result_AccessToken :: string
  result_RefreshToken :: string
  result_ExpiresIn :: "64 word"
  result_Scope :: string

record ClientCredentials =
  creds_ClientID :: string
  creds_ClientSecret :: string

record OAuthFlow =
  apiURL :: string
  clientID :: string
  clientSecret :: string
  callbackPort :: int

definition NewOAuthFlow :: "string \<Rightarrow> OAuthFlow" where
  "NewOAuthFlow u =
     \<lparr>apiURL = u, clientID = [], clientSecret = [], callbackPort = DefaultCallbackPort\<rparr>"

definition SetClientCredentials :: "string \<Rightarrow> string \<Rightarrow> OAuthFlow \<Rightarrow> OAuthFlow" where
  "SetClientCredentials cid csecret flow = flow\<lparr>clientID := cid, clientSecret := csecret\<rparr>"

text \<open>\<open>client.Do(req)\<close>: the request goes out and the peer's answer, if any, comes back.\<close>

definition client_Do :: "env \<Rightarrow> http_request \<Rightarrow> world \<Rightarrow> http_reply \<times> world" where
  "client_Do e req w = (roundtrip e req, emit (Sent req) w)"

definition registration_request :: "OAuthFlow \<Rightarrow> string \<Rightarrow> http_request" where
  "registration_request flow redirectURI =
     \<lparr>url = apiURL flow @ ''/oauth/register'',
      content_type = ''application/json'',
      body = RegistrationJSON DefaultClientName [redirectURI]
               [''authorization_code'', ''refresh_token''] ''full''\<rparr>"

text \<open>
  \<open>RegisterClient\<close>. The request body is a map of strings and string lists, which
  \<open>json.Marshal\<close> always encodes, so that error return of the source cannot be taken.
\<close>

definition RegisterClient ::
  "env \<Rightarrow> OAuthFlow \<Rightarrow> string \<Rightarrow> world \<Rightarrow> (err + ClientCredentials) \<times> world" where
  "RegisterClient e flow redirectURI w =
     (case url_fault e (apiURL flow @ ''/oauth/register'') of
        Some x \<Rightarrow> (Inl (''failed to create registration request: '' @ x), w)
      | None \<Rightarrow>
          (case client_Do e (registration_request flow redirectURI) w of
             (NoReply x, w1) \<Rightarrow> (Inl (''registration request failed: '' @ x), w1)
           | (Reply status b, w1) \<Rightarrow>
               if status \<noteq> 201 \<and> status \<noteq> 200 then
                 (Inl (''client registration failed with status '' @ show_int status), w1)
               else
                 (case json_registration e b of
                    Inl x \<Rightarrow> (Inl (''failed to parse registration response: '' @ x), w1)
                  | Inr r \<Rightarrow>
                      (Inr \<lparr>creds_ClientID = reg_ClientID r,
                            creds_ClientSecret = reg_ClientSecret r\<rparr>, w1))))"

definition GetClientCredentials_flow :: "OAuthFlow \<Rightarrow> ClientCredentials option" where
  "GetClientCredentials_flow flow =
     (if clientID flow = [] then None
      else Some \<lparr>creds_ClientID = clientID flow, creds_ClientSecret = clientSecret flow\<rparr>)"

definition refresh_request :: "OAuthFlow \<Rightarrow> string \<Rightarrow> http_request" where
  "refresh_request flow refreshToken =
     \<lparr>url = apiURL flow @ ''/oauth/token'',
      content_type = ''application/x-www-form-urlencoded'',
      body = Form ([(''grant_type'', ''refresh_token''), (''refresh_token'', refreshToken),
                    (''client_id'', clientID flow)] @
                   (if clientSecret flow \<noteq> [] then [(''client_secret'', clientSecret flow)]
                    else []))\<rparr>"

definition RefreshTokens ::
  "env \<Rightarrow> OAuthFlow \<Rightarrow> string \<Rightarrow> world \<Rightarrow> (err + OAuthResult) \<times> world" where
  "RefreshTokens e flow refreshToken w =
     (case url_fault e (apiURL flow @ ''/oauth/token'') of
        Some x \<Rightarrow> (Inl (''failed to create request: '' @ x), w)
      | None \<Rightarrow>
          (case client_Do e (refresh_request flow refreshToken) w of
             (NoReply x, w1) \<Rightarrow> (Inl (''token refresh request failed: '' @ x), w1)
           | (Reply status b, w1) \<Rightarrow>
               if status \<noteq> 200 then
                 (Inl (''token refresh failed with status '' @ show_int status), w1)
               else
                 (case json_token e b of
                    Inl x \<Rightarrow> (Inl (''failed to parse token response: '' @ x), w1)
                  | Inr t \<Rightarrow>
                      (Inr \<lparr>result_AccessToken = resp_AccessToken t,
                            result_RefreshToken = resp_RefreshToken t,
                            result_ExpiresIn = resp_ExpiresIn t,
                            result_Scope = resp_Scope t\<rparr>, w1))))"

text \<open>
  \<open>net.Listen\<close> on a local port fails when \<open>port_taken\<close> says so or when this process
  already holds the port; \<open>bound\<close> lists the ports this process holds.
\<close>

definition net_Listen :: "env \<Rightarrow> int \<Rightarrow> world \<Rightarrow> (err + int) \<times> world" where
  "net_Listen e port w =
     (if port_taken e port \<or> port \<in> set (bound w) then (Inl ''address already in use'', w)
      else (Inr port, emit (Bound port) (w\<lparr>bound := port # bound w\<rparr>)))"

definition listener_Close :: "int \<Rightarrow> world \<Rightarrow> world" where
  "listener_Close port w = emit (Released port) (w\<lparr>bound := remove1 port (bound w)\<rparr>)"

text \<open>The loop of \<open>findAvailablePort\<close>: \<open>n\<close> candidates are left, starting at \<open>port\<close>.\<close>

fun probe :: "env \<Rightarrow> int \<Rightarrow> nat \<Rightarrow> world \<Rightarrow> (err + int) \<times> world" where
  "probe e port 0 w = (Inl ''no available port found'', w)"
| "probe e port (Suc n) w =
     (case net_Listen e port w of
        (Inr listener, w1) \<Rightarrow> (Inr port, listener_Close listener w1)
      | (Inl x, w1) \<Rightarrow> probe e (port + 1) n w1)"

definition findAvailablePort :: "env \<Rightarrow> OAuthFlow \<Rightarrow> world \<Rightarrow> (err + int) \<times> world" where
  "findAvailablePort e flow w = probe e (callbackPort flow) 10 w"

definition hexdigit :: "nat \<Rightarrow> char" where
  "hexdigit d = ''0123456789abcdef'' ! d"

definition hex_EncodeToString :: "8 word list \<Rightarrow> string" where
  "hex_EncodeToString bs = concat (map (\<lambda>b. [hexdigit (unat b div 16), hexdigit (unat b mod 16)]) bs)"

definition generateRandomState :: "env \<Rightarrow> err + string" where
  "generateRandomState e =
     (case rand_Read e of Inl x \<Rightarrow> Inl x | Inr bs \<Rightarrow> Inr (hex_EncodeToString bs))"

text \<open>\<open>r.URL.Query().Get(key)\<close>: the first value given for the key, empty when there is none.\<close>

definition Get :: "(string \<times> string) list \<Rightarrow> string \<Rightarrow> string" where
  "Get q k = (case map_of q k of None \<Rightarrow> [] | Some v \<Rightarrow> v)"

text \<open>
  The handler of \<open>/callback\<close> registered by \<open>startCallbackServer\<close>. \<open>delivered\<close> is what
  it sends: \<open>Inl\<close> an error on \<open>errChan\<close>, \<open>Inr\<close> the code on \<open>codeChan\<close>. The page it
  writes is given by its status and its message (the HTML around the message is left out).
\<close>

record handled =
  delivered :: "err + string"
  page_status :: int
  page_message :: string

definition callback_handler :: "string \<Rightarrow> (string \<times> string) list \<Rightarrow> handled" where
  "callback_handler expectedState q =
     (if Get q ''state'' \<noteq> expectedState then
        \<lparr>delivered = Inl ''state mismatch'', page_status = 400, page_message = ''State mismatch''\<rparr>
      else if Get q ''error'' \<noteq> [] then
        \<lparr>delivered = Inl (''OAuth error: '' @ Get q ''error'' @ '' - '' @ Get q ''error_description''),
         page_status = 200,
         page_message = ''Authentication failed. You can close this window.''\<rparr>
      else if Get q ''code'' = [] then
        \<lparr>delivered = Inl ''no authorization code received'', page_status = 400,
         page_message = ''No code received''\<rparr>
      else
        \<lparr>delivered = Inr (Get q ''code''), page_status = 200,
         page_message = ''Authentication successful! You can close this window.''\<rparr>)"

text \<open>
  \<open>startCallbackServer\<close> starts \<open>ListenAndServe\<close> and ignores its error: the port is held
  from then on if it could be bound.
\<close>

definition startCallbackServer :: "env \<Rightarrow> int \<Rightarrow> string \<Rightarrow> world \<Rightarrow> world" where
  "startCallbackServer e port expectedState w =
     emit (Serving port expectedState) (snd (net_Listen e port w))"

definition server_Shutdown :: "int \<Rightarrow> world \<Rightarrow> world" where
  "server_Shutdown port w = emit (Shutdown port) (w\<lparr>bound := remove1 port (bound w)\<rparr>)"

definition buildAuthURL :: "env \<Rightarrow> OAuthFlow \<Rightarrow> string \<Rightarrow> string \<Rightarrow> string" where
  "buildAuthURL e flow redirectURI state =
     apiURL flow @ ''/oauth/authorize?'' @
     values_Encode e [(''client_id'', clientID flow), (''redirect_uri'', redirectURI),
                      (''response_type'', ''code''), (''scope'', ''full''), (''state'', state)]"

definition exchange_request :: "OAuthFlow \<Rightarrow> string \<Rightarrow> string \<Rightarrow> http_request" where
  "exchange_request flow code redirectURI =
     \<lparr>url = apiURL flow @ ''/oauth/token'',
      content_type = ''application/x-www-form-urlencoded'',
      body = Form ([(''grant_type'', ''authorization_code''), (''code'', code),
                    (''redirect_uri'', redirectURI), (''client_id'', clientID flow)] @
                   (if clientSecret flow \<noteq> [] then [(''client_secret'', clientSecret flow)]
                    else []))\<rparr>"

definition exchangeCodeForTokens ::
  "env \<Rightarrow> OAuthFlow \<Rightarrow> string \<Rightarrow> string \<Rightarrow> world \<Rightarrow> (err + OAuthResult) \<times> world" where
  "exchangeCodeForTokens e flow code redirectURI w =
     (case url_fault e (apiURL flow @ ''/oauth/token'') of
        Some x \<Rightarrow> (Inl (''failed to create request: '' @ x), w)
      | None \<Rightarrow>
          (case client_Do e (exchange_request flow code redirectURI) w of
             (NoReply x, w1) \<Rightarrow> (Inl (''token exchange request failed: '' @ x), w1)
           | (Reply status b, w1) \<Rightarrow>
               if status \<noteq> 200 then
                 (Inl (''token exchange failed with status '' @ show_int status), w1)
               else
                 (case json_token e b of
                    Inl x \<Rightarrow> (Inl (''failed to parse token response: '' @ x), w1)
                  | Inr t \<Rightarrow>
                      (Inr \<lparr>result_AccessToken = resp_AccessToken t,
                            result_RefreshToken = resp_RefreshToken t,
                            result_ExpiresIn = resp_ExpiresIn t,
                            result_Scope = resp_Scope t\<rparr>, w1))))"

text \<open>
  \<open>Login\<close> from the generation of the state value on (the part after registration). The
  deferred \<open>server.Shutdown\<close> runs on every way out once the server has been started.
\<close>

definition Login_authorize ::
  "env \<Rightarrow> OAuthFlow \<Rightarrow> int \<Rightarrow> string \<Rightarrow> world \<Rightarrow> (err + OAuthResult) \<times> OAuthFlow \<times> world" where
  "Login_authorize e flow port redirectURI w =
     (case generateRandomState e of
        Inl x \<Rightarrow> (Inl (''failed to generate state: '' @ x), flow, w)
      | Inr state \<Rightarrow>
          (let w1 = startCallbackServer e port state w;
               authURL = buildAuthURL e flow redirectURI state;
               w2 = emit (Printed ''Opening browser for authentication...'') w1;
               w3 = emit (Printed (''If the browser doesn't open, please visit:'' @ [CHR 0x0A] @
                                   authURL @ [CHR 0x0A, CHR 0x0A])) w2;
               w4 = emit (Opened authURL) w3;
               w5 = (case browser_fault e of
                       Some x \<Rightarrow>
                         emit (Printed (''Failed to open browser automatically: '' @ x @
                                        [CHR 0x0A])) w4
                     | None \<Rightarrow> w4);
               w6 = emit (Printed ''Waiting for authentication...'') w5
           in case first_wakeup e of
                Callback q \<Rightarrow>
                  (let h = callback_handler state q;
                       w7 = emit (Replied (page_status h) (page_message h)) w6
                   in case delivered h of
                        Inr code \<Rightarrow>
                          (case exchangeCodeForTokens e flow code redirectURI w7 of
                             (r, w8) \<Rightarrow> (r, flow, server_Shutdown port w8))
                      | Inl x \<Rightarrow> (Inl x, flow, server_Shutdown port w7))
              | Cancelled x \<Rightarrow> (Inl x, flow, server_Shutdown port w6)
              | TimedOut \<Rightarrow> (Inl ''authentication timed out'', flow, server_Shutdown port w6)))"

definition Login ::
  "env \<Rightarrow> OAuthFlow \<Rightarrow> world \<Rightarrow> (err + OAuthResult) \<times> OAuthFlow \<times> world" where
  "Login e flow w =
     (case findAvailablePort e flow w of
        (Inl x, w1) \<Rightarrow> (Inl (''failed to find available port: '' @ x), flow, w1)
      | (Inr port, w1) \<Rightarrow>
          (let redirectURI = ''http://localhost:'' @ show_int port @ ''/callback''
           in if clientID flow = [] then
                (case RegisterClient e flow redirectURI
                        (emit (Printed ''Registering CLI with Kamui Platform...'') w1) of
                   (Inl x, w2) \<Rightarrow> (Inl (''failed to register client: '' @ x), flow, w2)
                 | (Inr creds, w2) \<Rightarrow>
                     Login_authorize e
                       (flow\<lparr>clientID := creds_ClientID creds,
                             clientSecret := creds_ClientSecret creds\<rparr>)
                       port redirectURI w2)
              else Login_authorize e flow port redirectURI w1))"

section \<open>Package service: the credential lifecycle manager\<close>

definition IsLoggedIn :: "world \<Rightarrow> bool" where
  "IsLoggedIn w =
     (case Load w of
        Inl x \<Rightarrow> False
      | Inr cfg \<Rightarrow> AccessToken cfg \<noteq> [] \<or> RefreshToken cfg \<noteq> [])"

definition not_logged_in :: err where
  "not_logged_in = ''not logged in. Please run 'kamui login' first''"

definition session_expired :: err where
  "session_expired = ''session expired. Please run 'kamui login' again''"

definition EnsureAuthenticated :: "env \<Rightarrow> world \<Rightarrow> err option \<times> world" where
  "EnsureAuthenticated e w =
     (case Load w of
        Inl x \<Rightarrow> (Some (''failed to load config: '' @ x), w)
      | Inr cfg \<Rightarrow>
          if AccessToken cfg = [] \<and> RefreshToken cfg = [] then (Some not_logged_in, w)
          else
            (case Manager_IsLoggedIn e w of
               (True, w1) \<Rightarrow> (None, w1)
             | (False, w1) \<Rightarrow>
                 if RefreshToken cfg = [] then (Some session_expired, w1)
                 else
                   (case GetAPIURL w1 of
                      Inl x \<Rightarrow> (Some (''failed to get API URL: '' @ x), w1)
                    | Inr u \<Rightarrow>
                        (case RefreshTokens e
                                (SetClientCredentials (ClientID cfg) (ClientSecret cfg)
                                   (NewOAuthFlow u))
                                (RefreshToken cfg) w1 of
                           (Inl x, w2) \<Rightarrow>
                             (Some (''failed to refresh token: '' @ x @
                                    ''. Please run 'kamui login' again''), w2)
                         | (Inr result, w2) \<Rightarrow>
                             (case SaveTokens e (result_AccessToken result)
                                     (result_RefreshToken result) (result_ExpiresIn result) w2 of
                                (Some x, w3) \<Rightarrow>
                                  (Some (''failed to save refreshed tokens: '' @ x), w3)
                              | (None, w3) \<Rightarrow> (None, w3))))))"

definition GetAccessToken :: "env \<Rightarrow> world \<Rightarrow> (err + string) \<times> world" where
  "GetAccessToken e w =
     (case EnsureAuthenticated e w of
        (Some x, w1) \<Rightarrow> (Inl x, w1)
      | (None, w1) \<Rightarrow> Manager_GetAccessToken e w1)"

text \<open>\<open>authService.Login\<close>: the login command, which stores what the flow returns.\<close>

definition authService_Login :: "env \<Rightarrow> world \<Rightarrow> err option \<times> world" where
  "authService_Login e w =
     (if IsLoggedIn w then
        (Some ''already logged in. Use 'kamui logout' first to log out'', w)
      else
        (case GetAPIURL w of
           Inl x \<Rightarrow> (Some (''failed to get API URL: '' @ x), w)
         | Inr u \<Rightarrow>
             (case GetClientCredentials w of
                Inl x \<Rightarrow> (Some (''failed to get client credentials: '' @ x), w)
              | Inr (cid, csecret) \<Rightarrow>
                  (case Login e (if cid \<noteq> [] then SetClientCredentials cid csecret (NewOAuthFlow u)
                                 else NewOAuthFlow u) w of
                     (Inl x, flow, w1) \<Rightarrow> (Some (''authentication failed: '' @ x), w1)
                   | (Inr result, flow, w1) \<Rightarrow>
                       (case (case GetClientCredentials_flow flow of
                                Some creds \<Rightarrow>
                                  if cid = [] then
                                    SaveClientCredentials e (creds_ClientID creds)
                                      (creds_ClientSecret creds) w1
                                  else (None, w1)
                              | None \<Rightarrow> (None, w1)) of
                          (Some x, w2) \<Rightarrow>
                            (Some (''failed to save client credentials: '' @ x), w2)
                        | (None, w2) \<Rightarrow>
                            (case SaveTokens e (result_AccessToken result)
                                    (result_RefreshToken result) (result_ExpiresIn result) w2 of
                               (Some x, w3) \<Rightarrow> (Some (''failed to save credentials: '' @ x), w3)
                             | (None, w3) \<Rightarrow> (None, w3)))))))"

definition Logout :: "env \<Rightarrow> world \<Rightarrow> err option \<times> world" where
  "Logout e w =
     (case Load w of
        Inl x \<Rightarrow> (Some (''failed to load config: '' @ x), w)
      | Inr cfg \<Rightarrow>
          if AccessToken cfg = [] \<and> RefreshToken cfg = [] then (Some ''not logged in'', w)
          else
            (case Clear e w of
               (Some x, w1) \<Rightarrow> (Some (''failed to clear credentials: '' @ x), w1)
             | (None, w1) \<Rightarrow> (None, w1)))"

text \<open>The requests among the events, oldest first.\<close>

fun requests :: "event list \<Rightarrow> http_request list" where
  "requests [] = []"
| "requests (Sent r # es) = r # requests es"
| "requests (ev # es) = requests es"

section \<open>A sample run\<close>

text \<open>
  The scenario of the specification's end-to-end tests: a token endpoint that answers with
  the given reply, whose success body carries access token A, refresh token B and the given
  lifetime in seconds; a clock that advances by a millisecond per reading; a disk that
  accepts writes; port 9876 held by another process.
\<close>

definition token_body :: string where
  \<open>token_body = ''{"access_token":"A","refresh_token":"B","expires_in":3600,"scope":"full"}''\<close>

definition message_body :: string where
  \<open>message_body = ''{"message":"redirect_uris is invalid"}''\<close>

definition sample_env :: "http_reply \<Rightarrow> 64 word \<Rightarrow> env" where
  "sample_env reply lifetime =
     \<lparr>clock = (\<lambda>n. 5000000000000 + int n * 1000000),
      write_fault = None,
      url_fault = (\<lambda>u. None),
      roundtrip = (\<lambda>req. reply),
      json_token = (\<lambda>b. if b = token_body
                          then Inr \<lparr>resp_AccessToken = ''A'', resp_TokenType = [],
                                    resp_ExpiresIn = lifetime, resp_RefreshToken = ''B'',
                                    resp_Scope = ''full''\<rparr>
                          else Inl ''invalid character''),
      json_registration = (\<lambda>b. Inl ''invalid character''),
      port_taken = (\<lambda>p. p = 9876),
      rand_Read = Inr (replicate 16 171),
      values_Encode = (\<lambda>q. concat (map (\<lambda>(k, v). k @ ''='' @ v @ ''&'') q)),
      browser_fault = None,
      first_wakeup = TimedOut\<rparr>"

definition sample_config :: "string \<Rightarrow> string \<Rightarrow> time \<Rightarrow> Config" where
  "sample_config a r t =
     \<lparr>AccessToken = a, RefreshToken = r, ExpiresAt = t, APIURL = [],
      ClientID = ''cli-1'', ClientSecret = ''s3cret''\<rparr>"

definition sample_world :: "file_state \<Rightarrow> world" where
  "sample_world d = \<lparr>disk = d, ticks = 0, bound = [], trace = []\<rparr>"

section \<open>Strings and records through JSON\<close>

lemma json_string_valid: "utf8_valid s \<Longrightarrow> json_string s = s"
proof (induction s rule: json_string.induct)
  case 1
  show ?case by (simp add: json_string.simps)
next
  case (2 a s)
  from "2.prems" have w: "rune_width (a # s) \<noteq> 0"
    and v: "utf8_valid (drop (rune_width (a # s)) (a # s))"
    by (simp_all add: utf8_valid.simps split: if_splits)
  from "2.IH"(2) [OF w v] w show ?case
    by (simp add: json_string.simps(2) [of a s])
qed

lemma rune_width_prefix:
  assumes "rune_width s = n" and "n \<noteq> 0"
  shows "rune_width (take n s @ r) = n \<and> n \<le> length s"
proof (cases s)
  case Nil
  with assms show ?thesis by (simp add: rune_width.simps)
next
  case (Cons a s')
  consider "byte a < 128" | "\<not> byte a < 128" "two a s'"
    | "\<not> byte a < 128" "\<not> two a s'" "three a s'"
    | "\<not> byte a < 128" "\<not> two a s'" "\<not> three a s'" "four a s'"
    using assms Cons by (auto simp: rune_width.simps split: if_splits)
  then show ?thesis
  proof cases
    case 1
    with assms Cons show ?thesis by (auto simp: rune_width.simps)
  next
    case 2
    with assms Cons show ?thesis
      by (cases s') (auto simp: rune_width.simps two_def)
  next
    case 3
    then obtain b c r' where s': "s' = b # c # r'"
      by (auto simp: three_def split: list.splits)
    with 3 assms Cons show ?thesis
      by (auto simp: rune_width.simps two_def three_def)
  next
    case 4
    then obtain b c d r' where s': "s' = b # c # d # r'"
      by (auto simp: four_def split: list.splits)
    with 4 assms Cons show ?thesis
      by (auto simp: rune_width.simps two_def three_def four_def)
  qed
qed

lemma json_string_rune:
  assumes "rune_width p = length p" and "p \<noteq> []"
  shows "json_string (p @ r) = p @ json_string r"
proof -
  obtain a p' where p: "p = a # p'"
    using assms(2) by (cases p) auto
  have n: "length p \<noteq> 0"
    using assms(2) by simp
  from rune_width_prefix [OF assms(1) n, of r]
  have w: "rune_width (p @ r) = length p"
    by simp
  show ?thesis
    using w n by (simp add: p json_string.simps(2) [of a "p' @ r"])
qed

lemma rune_width_replacement: "rune_width replacement = 3"
  by (simp add: replacement_def rune_width.simps byte_def two_def three_def cont_def)

lemma json_string_idem [simp]: "json_string (json_string s) = json_string s"
proof (induction s rule: json_string.induct)
  case 1
  show ?case by (simp add: json_string.simps)
next
  case (2 a s)
  show ?case
  proof (cases "rune_width (a # s) = 0")
    case True
    have "json_string (replacement @ json_string s) = replacement @ json_string (json_string s)"
      by (rule json_string_rune) (simp_all add: rune_width_replacement, simp_all add: replacement_def)
    with "2.IH"(1) [OF True] True show ?thesis
      by (simp add: json_string.simps(2) [of a s])
  next
    case False
    let ?n = "rune_width (a # s)"
    from rune_width_prefix [OF refl False, of "[]"]
    have p: "rune_width (take ?n (a # s)) = length (take ?n (a # s))" and ne: "take ?n (a # s) \<noteq> []"
      using False by auto
    from json_string_rune [OF p ne] "2.IH"(2) [OF False] False show ?thesis
      by (simp add: json_string.simps(2) [of a s])
  qed
qed

lemma json_string_Nil [simp]: "json_string [] = []"
  by (simp add: json_string.simps)

lemma json_string_ascii: "\<forall>c \<in> set s. byte c < 128 \<Longrightarrow> json_string s = s"
  by (induction s) (simp_all add: json_string.simps rune_width.simps)

lemma utf8_valid_ascii: "\<forall>c \<in> set s. byte c < 128 \<Longrightarrow> utf8_valid s"
  by (induction s) (simp_all add: utf8_valid.simps rune_width.simps)

lemma byte_ascii [simp]: "byte (Char b0 b1 b2 b3 b4 b5 b6 False) < 128"
  by (simp add: byte_def)

lemma json_reload_idem [simp]: "json_reload (json_reload c) = json_reload c"
  by (simp add: json_reload_def)


lemma DefaultAPIURL_nonempty [simp]: "DefaultAPIURL \<noteq> []"
  by (simp add: DefaultAPIURL_def)

lemma json_string_DefaultAPIURL [simp]: "json_string DefaultAPIURL = DefaultAPIURL"
  by (rule json_string_ascii) (simp add: DefaultAPIURL_def)

text \<open>A record that \<open>Load\<close> returns is one that JSON gives back unchanged.\<close>

lemma Load_reloaded:
  assumes "Load w = Inr c"
  shows "json_string (AccessToken c) = AccessToken c"
    and "json_string (RefreshToken c) = RefreshToken c"
    and "json_string (APIURL c) = APIURL c"
    and "json_string (ClientID c) = ClientID c"
    and "json_string (ClientSecret c) = ClientSecret c"
    and "APIURL c \<noteq> []"
  using assms
  by (cases "disk w"; auto simp: Load_def json_reload_def split: if_splits)+

lemma Load_Holds_reloaded:
  "disk w = Holds c \<Longrightarrow> json_reload c = c \<Longrightarrow> APIURL c \<noteq> [] \<Longrightarrow> Load w = Inr c"
  by (simp add: Load_def)

section \<open>Facts about the sample run\<close>

lemma sample_config_fields [simp]:
  "AccessToken (sample_config a r t) = a"
  "RefreshToken (sample_config a r t) = r"
  "ExpiresAt (sample_config a r t) = t"
  "APIURL (sample_config a r t) = []"
  "ClientID (sample_config a r t) = ''cli-1''"
  "ClientSecret (sample_config a r t) = ''s3cret''"
  by (simp_all add: sample_config_def)

lemma sample_world_fields [simp]:
  "disk (sample_world d) = d"
  "ticks (sample_world d) = 0"
  "bound (sample_world d) = []"
  "trace (sample_world d) = []"
  by (simp_all add: sample_world_def)

lemma sample_env_fields [simp]:
  "clock (sample_env reply n) k = 5000000000000 + int k * 1000000"
  "write_fault (sample_env reply n) = None"
  "url_fault (sample_env reply n) u = None"
  "roundtrip (sample_env reply n) req = reply"
  "port_taken (sample_env reply n) p \<longleftrightarrow> p = 9876"
  by (simp_all add: sample_env_def)

lemma Load_sample_world [simp]:
  assumes "\<forall>c \<in> set a. byte c < 128" and "\<forall>c \<in> set r. byte c < 128"
  shows "Load (sample_world (Holds (sample_config a r t))) =
           Inr ((sample_config a r t)\<lparr>APIURL := DefaultAPIURL\<rparr>)"
  using assms by (simp add: Load_def json_reload_def json_string_ascii)

section \<open>The credential store: load, save, clear\<close>

lemma Load_emit [simp]: "Load (emit ev w) = Load w"
  by (simp add: Load_def emit_def)

lemma Load_ticks [simp]: "Load (w\<lparr>ticks := n\<rparr>) = Load w"
  by (simp add: Load_def)



text \<open>
  Claim C7. Whatever record the store holds, \<open>Clear\<close> on a disk that accepts the write
  succeeds, and the record loaded afterwards has empty access and refresh tokens and a zero
  expiry, with \<open>client_id\<close>, \<open>client_secret\<close> and \<open>api_url\<close> as they were loaded before.
\<close>

theorem Clear_then_Load:
  assumes "Load w = Inr c" and "write_fault e = None"
  shows "fst (Clear e w) = None \<and>
         Load (snd (Clear e w)) = Inr (c\<lparr>AccessToken := [], RefreshToken := [], ExpiresAt := 0\<rparr>)"
proof -
  note kept = Load_reloaded [OF assms(1)]
  show ?thesis
    using assms kept by (simp add: Clear_def Save_def Load_def emit_def json_reload_def)
qed


theorem Clear_then_Load_witness:
  "Load (sample_world (Holds (sample_config ''tok'' ''ref'' 7))) =
     Inr ((sample_config ''tok'' ''ref'' 7)\<lparr>APIURL := DefaultAPIURL\<rparr>) \<and>
   write_fault (sample_env (NoReply ''refused'') 3600) = None \<and>
   fst (Clear (sample_env (NoReply ''refused'') 3600)
          (sample_world (Holds (sample_config ''tok'' ''ref'' 7)))) = None \<and>
   Load (snd (Clear (sample_env (NoReply ''refused'') 3600)
                (sample_world (Holds (sample_config ''tok'' ''ref'' 7))))) =
     Inr \<lparr>AccessToken = [], RefreshToken = [], ExpiresAt = 0,
          APIURL = ''https://api.kamui-platform.com'', ClientID = ''cli-1'',
          ClientSecret = ''s3cret''\<rparr>"
proof -
  have l: "Load (sample_world (Holds (sample_config ''tok'' ''ref'' 7))) =
             Inr ((sample_config ''tok'' ''ref'' 7)\<lparr>APIURL := DefaultAPIURL\<rparr>)"
    by simp
  have f: "write_fault (sample_env (NoReply ''refused'') 3600) = None"
    by simp
  show ?thesis
    using Clear_then_Load [OF l f] l f
    by (simp add: sample_config_def DefaultAPIURL_def)
qed

section \<open>The lifecycle manager: logged out, valid, expired\<close>

lemma sint_Minute [simp]: "sint Minute = 60000000000"
  by (simp add: Minute_def Second_def)

lemma Load_APIURL: "Load w = Inr cfg \<Longrightarrow> APIURL cfg \<noteq> []"
  by (auto simp: Load_def split: file_state.splits if_splits)

lemma GetAPIURL_Load: "Load w = Inr cfg \<Longrightarrow> GetAPIURL w = Inr (APIURL cfg)"
  by (simp add: GetAPIURL_def Load_APIURL)

lemma Manager_IsLoggedIn_no_token:
  "Load w = Inr cfg \<Longrightarrow> AccessToken cfg = [] \<Longrightarrow> Manager_IsLoggedIn e w = (False, w)"
  by (simp add: Manager_IsLoggedIn_def)

lemma Manager_IsLoggedIn_no_expiry:
  "Load w = Inr cfg \<Longrightarrow> AccessToken cfg \<noteq> [] \<Longrightarrow> ExpiresAt cfg = 0 \<Longrightarrow>
   Manager_IsLoggedIn e w = (True, w)"
  by (simp add: Manager_IsLoggedIn_def IsZero_def)

lemma Manager_IsLoggedIn_expiry:
  "Load w = Inr cfg \<Longrightarrow> AccessToken cfg \<noteq> [] \<Longrightarrow> ExpiresAt cfg \<noteq> 0 \<Longrightarrow>
   Manager_IsLoggedIn e w =
     (\<not> ExpiresAt cfg < clock e (ticks w) + 60000000000, w\<lparr>ticks := Suc (ticks w)\<rparr>)"
  by (simp add: Manager_IsLoggedIn_def IsZero_def Now_def After_def Add_def)

lemma Manager_GetAccessToken_no_expiry:
  "Load w = Inr cfg \<Longrightarrow> AccessToken cfg \<noteq> [] \<Longrightarrow> ExpiresAt cfg = 0 \<Longrightarrow>
   Manager_GetAccessToken e w = (Inr (AccessToken cfg), w)"
  by (simp add: Manager_GetAccessToken_def IsZero_def)

lemma Manager_GetAccessToken_expiry:
  "Load w = Inr cfg \<Longrightarrow> AccessToken cfg \<noteq> [] \<Longrightarrow> ExpiresAt cfg \<noteq> 0 \<Longrightarrow>
   Manager_GetAccessToken e w =
     (if ExpiresAt cfg < clock e (ticks w) then Inl ''token expired'' else Inr (AccessToken cfg),
      w\<lparr>ticks := Suc (ticks w)\<rparr>)"
  by (simp add: Manager_GetAccessToken_def IsZero_def Now_def After_def)

text \<open>
  Claim C4. For the record the store loads, "is logged in" holds exactly when one of the
  two token fields is non-empty, whatever the expiry and the clock; and when both are empty
  it is false and "ensure authenticated" fails with the not-logged-in error, touching
  nothing.
\<close>

theorem logged_out_checks:
  assumes "Load w = Inr cfg"
  shows "(IsLoggedIn w \<longleftrightarrow> AccessToken cfg \<noteq> [] \<or> RefreshToken cfg \<noteq> []) \<and>
         (AccessToken cfg = [] \<and> RefreshToken cfg = [] \<longrightarrow>
            \<not> IsLoggedIn w \<and> EnsureAuthenticated e w = (Some not_logged_in, w))"
  using assms by (simp add: IsLoggedIn_def EnsureAuthenticated_def)

theorem logged_out_checks_witness:
  "Load (sample_world (Holds (sample_config [] [] 0))) =
     Inr ((sample_config [] [] 0)\<lparr>APIURL := DefaultAPIURL\<rparr>) \<and>
   \<not> IsLoggedIn (sample_world (Holds (sample_config [] [] 0))) \<and>
   EnsureAuthenticated (sample_env (NoReply ''refused'') 3600)
     (sample_world (Holds (sample_config [] [] 0))) =
     (Some ''not logged in. Please run 'kamui login' first'',
      sample_world (Holds (sample_config [] [] 0)))"
proof -
  have l: "Load (sample_world (Holds (sample_config [] [] 0))) =
             Inr ((sample_config [] [] 0)\<lparr>APIURL := DefaultAPIURL\<rparr>)"
    by simp
  show ?thesis
    using logged_out_checks [OF l, of "sample_env (NoReply ''refused'') 3600"] l
    by (simp add: not_logged_in_def)
qed

text \<open>
  Claim C2. When the loaded record has an access token and its expiry is unset, or is more
  than 60 seconds ahead of the clock when the check reads it and not yet passed when the
  token is read, "ensure authenticated" succeeds, sends no request and writes nothing, and
  "get current access token" returns the stored access token, again without a request or a
  write.
\<close>

theorem valid_session:
  assumes "Load w = Inr cfg"
      and "AccessToken cfg \<noteq> []"
      and "ExpiresAt cfg = 0 \<or>
           clock e (ticks w) + 60000000000 < ExpiresAt cfg \<and>
           clock e (Suc (ticks w)) \<le> ExpiresAt cfg"
  shows "fst (EnsureAuthenticated e w) = None \<and>
         trace (snd (EnsureAuthenticated e w)) = trace w \<and>
         disk (snd (EnsureAuthenticated e w)) = disk w \<and>
         fst (GetAccessToken e w) = Inr (AccessToken cfg) \<and>
         trace (snd (GetAccessToken e w)) = trace w \<and>
         disk (snd (GetAccessToken e w)) = disk w"
proof (cases "ExpiresAt cfg = 0")
  case True
  have ea: "EnsureAuthenticated e w = (None, w)"
    using assms(1,2) True
    by (simp add: EnsureAuthenticated_def Manager_IsLoggedIn_no_expiry)
  show ?thesis
    using assms(1,2) True
    by (simp add: ea GetAccessToken_def Manager_GetAccessToken_no_expiry)
next
  case False
  let ?w1 = "w\<lparr>ticks := Suc (ticks w)\<rparr>"
  from False assms(3)
  have ahead: "clock e (ticks w) + 60000000000 < ExpiresAt cfg"
    and later: "clock e (Suc (ticks w)) \<le> ExpiresAt cfg"
    by simp_all
  have ea: "EnsureAuthenticated e w = (None, ?w1)"
    using assms(1,2) False ahead
    by (simp add: EnsureAuthenticated_def Manager_IsLoggedIn_expiry)
  have l1: "Load ?w1 = Inr cfg"
    using assms(1) by simp
  have ga: "Manager_GetAccessToken e ?w1 = (Inr (AccessToken cfg), ?w1\<lparr>ticks := Suc (ticks ?w1)\<rparr>)"
    using later assms(2) False
    by (simp add: Manager_GetAccessToken_expiry [OF l1])
  show ?thesis
    by (simp add: ea GetAccessToken_def ga)
qed

theorem valid_session_witness:
  "Load (sample_world (Holds (sample_config ''tok'' ''ref'' 8600000000000))) =
     Inr ((sample_config ''tok'' ''ref'' 8600000000000)\<lparr>APIURL := DefaultAPIURL\<rparr>) \<and>
   clock (sample_env (NoReply ''refused'') 3600) 0 + 60000000000 < 8600000000000 \<and>
   clock (sample_env (NoReply ''refused'') 3600) 1 \<le> 8600000000000 \<and>
   fst (EnsureAuthenticated (sample_env (NoReply ''refused'') 3600)
          (sample_world (Holds (sample_config ''tok'' ''ref'' 8600000000000)))) = None \<and>
   trace (snd (EnsureAuthenticated (sample_env (NoReply ''refused'') 3600)
          (sample_world (Holds (sample_config ''tok'' ''ref'' 8600000000000))))) = [] \<and>
   fst (GetAccessToken (sample_env (NoReply ''refused'') 3600)
          (sample_world (Holds (sample_config ''tok'' ''ref'' 8600000000000)))) = Inr ''tok'' \<and>
   trace (snd (GetAccessToken (sample_env (NoReply ''refused'') 3600)
          (sample_world (Holds (sample_config ''tok'' ''ref'' 8600000000000))))) = []"
proof -
  let ?e = "sample_env (NoReply ''refused'') 3600"
  let ?w = "sample_world (Holds (sample_config ''tok'' ''ref'' 8600000000000))"
  let ?cfg = "(sample_config ''tok'' ''ref'' 8600000000000)\<lparr>APIURL := DefaultAPIURL\<rparr>"
  have l: "Load ?w = Inr ?cfg"
    by simp
  have a: "AccessToken ?cfg \<noteq> []"
    by simp
  have x: "ExpiresAt ?cfg = 0 \<or>
           clock ?e (ticks ?w) + 60000000000 < ExpiresAt ?cfg \<and>
           clock ?e (Suc (ticks ?w)) \<le> ExpiresAt ?cfg"
    by simp
  show ?thesis
    using valid_session [OF l a x] by simp
qed

text \<open>
  Claim C3, as the code has it. When the loaded record has an access token, no refresh
  token, and an expiry that is set and less than 60 seconds ahead of the clock (or past),
  "ensure authenticated" fails with the session-expired error, which is not the
  not-logged-in error; it sends no request and leaves the stored record as it was.
\<close>

theorem expired_without_refresh_token:
  assumes "Load w = Inr cfg"
      and "AccessToken cfg \<noteq> []"
      and "RefreshToken cfg = []"
      and "ExpiresAt cfg \<noteq> 0"
      and "ExpiresAt cfg < clock e (ticks w) + 60000000000"
  shows "fst (EnsureAuthenticated e w) = Some session_expired \<and>
         session_expired \<noteq> not_logged_in \<and>
         trace (snd (EnsureAuthenticated e w)) = trace w \<and>
         disk (snd (EnsureAuthenticated e w)) = disk w"
proof -
  have ea: "EnsureAuthenticated e w = (Some session_expired, w\<lparr>ticks := Suc (ticks w)\<rparr>)"
    using assms by (simp add: EnsureAuthenticated_def Manager_IsLoggedIn_expiry)
  have "session_expired \<noteq> not_logged_in"
    by (simp add: session_expired_def not_logged_in_def)
  then show ?thesis
    by (simp add: ea)
qed

theorem expired_without_refresh_token_witness:
  "Load (sample_world (Holds (sample_config ''tok'' [] 4000000000000))) =
     Inr ((sample_config ''tok'' [] 4000000000000)\<lparr>APIURL := DefaultAPIURL\<rparr>) \<and>
   (4000000000000 :: int) < clock (sample_env (NoReply ''refused'') 3600) 0 + 60000000000 \<and>
   fst (EnsureAuthenticated (sample_env (NoReply ''refused'') 3600)
          (sample_world (Holds (sample_config ''tok'' [] 4000000000000)))) =
     Some ''session expired. Please run 'kamui login' again'' \<and>
   trace (snd (EnsureAuthenticated (sample_env (NoReply ''refused'') 3600)
          (sample_world (Holds (sample_config ''tok'' [] 4000000000000))))) = []"
proof -
  let ?e = "sample_env (NoReply ''refused'') 3600"
  let ?w = "sample_world (Holds (sample_config ''tok'' [] 4000000000000))"
  let ?cfg = "(sample_config ''tok'' [] 4000000000000)\<lparr>APIURL := DefaultAPIURL\<rparr>"
  have l: "Load ?w = Inr ?cfg"
    by simp
  have a: "AccessToken ?cfg \<noteq> []" and r: "RefreshToken ?cfg = []"
    and z: "ExpiresAt ?cfg \<noteq> 0"
    and x: "ExpiresAt ?cfg < clock ?e (ticks ?w) + 60000000000"
    by simp_all
  show ?thesis
    using expired_without_refresh_token [OF l a r z x]
    by (simp add: session_expired_def)
qed

text \<open>
  The claim as the specification words it counts an expiry exactly 60 seconds ahead as
  within the buffer. There the code takes the session for valid: with an access token, no
  refresh token and an expiry exactly 60 seconds after the clock reading, "ensure
  authenticated" succeeds.
\<close>

theorem buffer_boundary_counterexample:
  "AccessToken (sample_config ''tok'' [] 5060000000000) \<noteq> [] \<and>
   RefreshToken (sample_config ''tok'' [] 5060000000000) = [] \<and>
   ExpiresAt (sample_config ''tok'' [] 5060000000000) =
     clock (sample_env (NoReply ''refused'') 3600) 0 + 60000000000 \<and>
   fst (EnsureAuthenticated (sample_env (NoReply ''refused'') 3600)
          (sample_world (Holds (sample_config ''tok'' [] 5060000000000)))) = None \<and>
   fst (EnsureAuthenticated (sample_env (NoReply ''refused'') 3600)
          (sample_world (Holds (sample_config ''tok'' [] 5060000000000)))) \<noteq>
     Some session_expired"
  by (simp add: EnsureAuthenticated_def Manager_IsLoggedIn_def IsZero_def Now_def After_def
      Add_def)

section \<open>The lifecycle manager: refreshing\<close>


lemma requests_append: "requests (xs @ ys) = requests xs @ requests ys"
  by (induction xs rule: requests.induct) simp_all

lemma sless_sint: "(0 <s (x :: 64 word)) = (0 < sint x)"
  by (simp add: word_sless_alt)

lemma sint_seconds:
  assumes "0 < sint (x :: 64 word)" and "sint x \<le> 9223372036"
  shows "sint (x * Second) = sint x * 1000000000"
proof -
  have s: "sint Second = 1000000000"
    by (simp add: Second_def)
  have lo: "- (2 ^ 63) \<le> sint x * 1000000000"
    using assms(1) by simp
  have hi: "sint x * 1000000000 < 2 ^ 63"
    using assms(2) by simp
  have "sint (x * Second) = signed_take_bit 63 (sint x * sint Second)"
    by (simp add: sint_word_ariths)
  also have "\<dots> = sint x * 1000000000"
    unfolding s using lo hi by (simp add: signed_take_bit_int_eq_self)
  finally show ?thesis .
qed

lemma RefreshTokens_sent:
  assumes "url_fault e (apiURL flow @ ''/oauth/token'') = None"
  shows "requests (trace (snd (RefreshTokens e flow rt w))) =
           requests (trace w) @ [refresh_request flow rt] \<and>
         disk (snd (RefreshTokens e flow rt w)) = disk w \<and>
         ticks (snd (RefreshTokens e flow rt w)) = ticks w"
  using assms
  by (simp add: RefreshTokens_def client_Do_def emit_def requests_append
      split: http_reply.splits sum.splits)

lemma RefreshTokens_ok:
  assumes "url_fault e (apiURL flow @ ''/oauth/token'') = None"
      and "roundtrip e (refresh_request flow rt) = Reply 200 b"
      and "json_token e b = Inr t"
  shows "RefreshTokens e flow rt w =
           (Inr \<lparr>result_AccessToken = resp_AccessToken t,
                 result_RefreshToken = resp_RefreshToken t,
                 result_ExpiresIn = resp_ExpiresIn t,
                 result_Scope = resp_Scope t\<rparr>, emit (Sent (refresh_request flow rt)) w)"
  using assms by (simp add: RefreshTokens_def client_Do_def)

lemma SaveTokens_requests:
  "requests (trace (snd (SaveTokens e a r x w))) = requests (trace w)"
  by (simp add: SaveTokens_def Save_def Now_def emit_def requests_append Let_def
      split: sum.splits option.splits)

lemma SaveTokens_ok:
  assumes "Load w = Inr cfg" and "write_fault e = None"
  shows "fst (SaveTokens e a r x w) = None \<and>
         disk (snd (SaveTokens e a r x w)) =
           Holds (cfg\<lparr>AccessToken := a, RefreshToken := r,
                      ExpiresAt := (if 0 < sint x then clock e (ticks w) + sint (x * Second)
                                    else ExpiresAt cfg)\<rparr>) \<and>
         ticks (snd (SaveTokens e a r x w)) = (if 0 < sint x then Suc (ticks w) else ticks w)"
  using assms
  by (simp add: SaveTokens_def Save_def Now_def emit_def Let_def Add_def sless_sint)

lemma EnsureAuthenticated_refresh:
  assumes "Load w = Inr cfg"
      and "RefreshToken cfg \<noteq> []"
      and "Manager_IsLoggedIn e w = (False, w\<lparr>ticks := k\<rparr>)"
  shows "EnsureAuthenticated e w =
           (case RefreshTokens e
                   (SetClientCredentials (ClientID cfg) (ClientSecret cfg)
                      (NewOAuthFlow (APIURL cfg)))
                   (RefreshToken cfg) (w\<lparr>ticks := k\<rparr>) of
              (Inl x, w2) \<Rightarrow>
                (Some (''failed to refresh token: '' @ x @
                       ''. Please run 'kamui login' again''), w2)
            | (Inr result, w2) \<Rightarrow>
                (case SaveTokens e (result_AccessToken result) (result_RefreshToken result)
                        (result_ExpiresIn result) w2 of
                   (Some x, w3) \<Rightarrow> (Some (''failed to save refreshed tokens: '' @ x), w3)
                 | (None, w3) \<Rightarrow> (None, w3)))"
proof -
  have "Load (w\<lparr>ticks := k\<rparr>) = Inr cfg"
    using assms(1) by simp
  then have "GetAPIURL (w\<lparr>ticks := k\<rparr>) = Inr (APIURL cfg)"
    by (rule GetAPIURL_Load)
  then show ?thesis
    using assms by (simp add: EnsureAuthenticated_def)
qed


lemma Manager_GetAccessToken_trace:
  "trace (snd (Manager_GetAccessToken e w)) = trace w"
  by (simp add: Manager_GetAccessToken_def Now_def split: sum.splits)

lemma GetAccessToken_requests:
  "requests (trace (snd (GetAccessToken e w))) = requests (trace (snd (EnsureAuthenticated e w)))"
  by (cases "EnsureAuthenticated e w")
     (simp add: GetAccessToken_def Manager_GetAccessToken_trace split: option.splits)

lemma save_result:
  "(case p of (Some x, w3) \<Rightarrow> (Some (f x), w3) | (None, w3) \<Rightarrow> (None, w3)) =
   (map_option f (fst p), snd p)"
  by (cases p; cases "fst p") auto

lemma EnsureAuthenticated_refresh_failed:
  assumes "Load w = Inr cfg"
      and "RefreshToken cfg \<noteq> []"
      and "Manager_IsLoggedIn e w = (False, w\<lparr>ticks := k\<rparr>)"
      and "RefreshTokens e (SetClientCredentials (ClientID cfg) (ClientSecret cfg)
             (NewOAuthFlow (APIURL cfg))) (RefreshToken cfg) (w\<lparr>ticks := k\<rparr>) = (Inl x, w2)"
  shows "EnsureAuthenticated e w =
           (Some (''failed to refresh token: '' @ x @ ''. Please run 'kamui login' again''), w2)"
  by (simp add: EnsureAuthenticated_refresh [OF assms(1-3)] assms(4))

lemma EnsureAuthenticated_refresh_done:
  assumes "Load w = Inr cfg"
      and "RefreshToken cfg \<noteq> []"
      and "Manager_IsLoggedIn e w = (False, w\<lparr>ticks := k\<rparr>)"
      and "RefreshTokens e (SetClientCredentials (ClientID cfg) (ClientSecret cfg)
             (NewOAuthFlow (APIURL cfg))) (RefreshToken cfg) (w\<lparr>ticks := k\<rparr>) =
             (Inr result, w2)"
  shows "EnsureAuthenticated e w =
           (map_option (\<lambda>x. ''failed to save refreshed tokens: '' @ x)
              (fst (SaveTokens e (result_AccessToken result) (result_RefreshToken result)
                      (result_ExpiresIn result) w2)),
            snd (SaveTokens e (result_AccessToken result) (result_RefreshToken result)
                   (result_ExpiresIn result) w2))"
  by (simp add: EnsureAuthenticated_refresh [OF assms(1-3)] assms(4) save_result)

lemma refresh_path_requests:
  assumes "Load w = Inr cfg"
      and "RefreshToken cfg \<noteq> []"
      and "Manager_IsLoggedIn e w = (False, w\<lparr>ticks := k\<rparr>)"
      and "url_fault e (APIURL cfg @ ''/oauth/token'') = None"
  shows "requests (trace (snd (EnsureAuthenticated e w))) =
           requests (trace w) @
           [refresh_request (SetClientCredentials (ClientID cfg) (ClientSecret cfg)
                               (NewOAuthFlow (APIURL cfg))) (RefreshToken cfg)]"
proof -
  let ?flow = "SetClientCredentials (ClientID cfg) (ClientSecret cfg) (NewOAuthFlow (APIURL cfg))"
  let ?w1 = "w\<lparr>ticks := k\<rparr>"
  have u: "url_fault e (apiURL ?flow @ ''/oauth/token'') = None"
    using assms(4) by (simp add: SetClientCredentials_def NewOAuthFlow_def)
  note sent = RefreshTokens_sent [OF u, of "RefreshToken cfg" ?w1]
  show ?thesis
  proof (cases "RefreshTokens e ?flow (RefreshToken cfg) ?w1")
    case (Pair r w2)
    with sent have w2: "requests (trace w2) = requests (trace w) @ [refresh_request ?flow (RefreshToken cfg)]"
      by simp
    show ?thesis
    proof (cases r)
      case (Inl x)
      with Pair have "RefreshTokens e ?flow (RefreshToken cfg) ?w1 = (Inl x, w2)"
        by simp
      from EnsureAuthenticated_refresh_failed [OF assms(1-3) this] w2 show ?thesis
        by simp
    next
      case (Inr result)
      with Pair have "RefreshTokens e ?flow (RefreshToken cfg) ?w1 = (Inr result, w2)"
        by simp
      from EnsureAuthenticated_refresh_done [OF assms(1-3) this] w2 show ?thesis
        by (simp add: SaveTokens_requests)
    qed
  qed
qed

lemma refresh_path_error:
  assumes "Load w = Inr cfg"
      and "RefreshToken cfg \<noteq> []"
      and "Manager_IsLoggedIn e w = (False, w\<lparr>ticks := k\<rparr>)"
  shows "fst (EnsureAuthenticated e w) \<noteq> Some not_logged_in"
proof -
  let ?flow = "SetClientCredentials (ClientID cfg) (ClientSecret cfg) (NewOAuthFlow (APIURL cfg))"
  show ?thesis
  proof (cases "RefreshTokens e ?flow (RefreshToken cfg) (w\<lparr>ticks := k\<rparr>)")
    case (Pair r w2)
    show ?thesis
    proof (cases r)
      case (Inl x)
      with Pair have "RefreshTokens e ?flow (RefreshToken cfg) (w\<lparr>ticks := k\<rparr>) = (Inl x, w2)"
        by simp
      from EnsureAuthenticated_refresh_failed [OF assms(1-3) this] show ?thesis
        by (simp add: not_logged_in_def)
    next
      case (Inr result)
      with Pair have "RefreshTokens e ?flow (RefreshToken cfg) (w\<lparr>ticks := k\<rparr>) = (Inr result, w2)"
        by simp
      from EnsureAuthenticated_refresh_done [OF assms(1-3) this] show ?thesis
        by (auto simp: not_logged_in_def)
    qed
  qed
qed

lemma refresh_path_success:
  assumes "Load w = Inr cfg"
      and "RefreshToken cfg \<noteq> []"
      and "Manager_IsLoggedIn e w = (False, w\<lparr>ticks := k\<rparr>)"
      and "url_fault e (APIURL cfg @ ''/oauth/token'') = None"
      and "roundtrip e (refresh_request (SetClientCredentials (ClientID cfg) (ClientSecret cfg)
                               (NewOAuthFlow (APIURL cfg))) (RefreshToken cfg)) = Reply 200 b"
      and "json_token e b = Inr t"
      and "write_fault e = None"
  shows "fst (EnsureAuthenticated e w) = None \<and>
         disk (snd (EnsureAuthenticated e w)) =
           Holds (cfg\<lparr>AccessToken := resp_AccessToken t, RefreshToken := resp_RefreshToken t,
                      ExpiresAt := (if 0 < sint (resp_ExpiresIn t)
                                    then clock e k + sint (resp_ExpiresIn t * Second)
                                    else ExpiresAt cfg)\<rparr>) \<and>
         ticks (snd (EnsureAuthenticated e w)) =
           (if 0 < sint (resp_ExpiresIn t) then Suc k else k)"
proof -
  let ?flow = "SetClientCredentials (ClientID cfg) (ClientSecret cfg) (NewOAuthFlow (APIURL cfg))"
  let ?w2 = "emit (Sent (refresh_request ?flow (RefreshToken cfg))) (w\<lparr>ticks := k\<rparr>)"
  have u: "url_fault e (apiURL ?flow @ ''/oauth/token'') = None"
    using assms(4) by (simp add: SetClientCredentials_def NewOAuthFlow_def)
  note ok = RefreshTokens_ok [OF u assms(5,6), of "w\<lparr>ticks := k\<rparr>"]
  have l2: "Load ?w2 = Inr cfg"
    using assms(1) by simp
  have t2: "ticks ?w2 = k"
    by (simp add: emit_def)
  note st = SaveTokens_ok [OF l2 assms(7), of "resp_AccessToken t" "resp_RefreshToken t"
      "resp_ExpiresIn t"]
  show ?thesis
    using st by (simp add: EnsureAuthenticated_refresh_done [OF assms(1-3) ok] t2)
qed

text \<open>
  Claim C10. When the loaded record has no access token but has a refresh token, "ensure
  authenticated" does not fail with the not-logged-in error. It takes the refresh path: if
  the token URL is accepted, exactly one request goes out, the refresh request carrying the
  stored refresh token and the stored client credentials; and when that request is answered
  with status 200 and a body that decodes, on a disk that accepts the write, it succeeds and
  the store holds the returned tokens (with the expiry set from a positive \<open>expires_in\<close>,
  as \<open>SaveTokens\<close> computes it).
\<close>

theorem refresh_without_access_token:
  fixes cfg :: Config
  defines "flow \<equiv> SetClientCredentials (ClientID cfg) (ClientSecret cfg) (NewOAuthFlow (APIURL cfg))"
  assumes "Load w = Inr cfg"
      and "AccessToken cfg = []"
      and "RefreshToken cfg \<noteq> []"
  shows "fst (EnsureAuthenticated e w) \<noteq> Some not_logged_in \<and>
         (url_fault e (APIURL cfg @ ''/oauth/token'') = None \<longrightarrow>
            requests (trace (snd (EnsureAuthenticated e w))) =
              requests (trace w) @ [refresh_request flow (RefreshToken cfg)] \<and>
            (roundtrip e (refresh_request flow (RefreshToken cfg)) = Reply 200 b \<and>
             json_token e b = Inr t \<and> write_fault e = None \<longrightarrow>
               fst (EnsureAuthenticated e w) = None \<and>
               disk (snd (EnsureAuthenticated e w)) =
                 Holds (cfg\<lparr>AccessToken := resp_AccessToken t,
                            RefreshToken := resp_RefreshToken t,
                            ExpiresAt := (if 0 < sint (resp_ExpiresIn t)
                                          then clock e (ticks w) + sint (resp_ExpiresIn t * Second)
                                          else ExpiresAt cfg)\<rparr>)))"
proof -
  have m: "Manager_IsLoggedIn e w = (False, w\<lparr>ticks := ticks w\<rparr>)"
    using assms(2,3) by (simp add: Manager_IsLoggedIn_no_token)
  show ?thesis
    unfolding flow_def
    using refresh_path_error [OF assms(2) assms(4) m]
      refresh_path_requests [OF assms(2) assms(4) m]
      refresh_path_success [OF assms(2) assms(4) m]
    by blast
qed


lemma sample_json_token [simp]:
  "json_token (sample_env reply n) token_body =
     Inr \<lparr>resp_AccessToken = ''A'', resp_TokenType = [], resp_ExpiresIn = n,
          resp_RefreshToken = ''B'', resp_Scope = ''full''\<rparr>"
  by (simp add: sample_env_def)

theorem refresh_without_access_token_witness:
  "Load (sample_world (Holds (sample_config [] ''R'' 0))) =
     Inr ((sample_config [] ''R'' 0)\<lparr>APIURL := DefaultAPIURL\<rparr>) \<and>
   fst (EnsureAuthenticated (sample_env (Reply 200 token_body) 3600)
          (sample_world (Holds (sample_config [] ''R'' 0)))) = None \<and>
   requests (trace (snd (EnsureAuthenticated (sample_env (Reply 200 token_body) 3600)
          (sample_world (Holds (sample_config [] ''R'' 0)))))) =
     [\<lparr>url = ''https://api.kamui-platform.com/oauth/token'',
       content_type = ''application/x-www-form-urlencoded'',
       body = Form [(''grant_type'', ''refresh_token''), (''refresh_token'', ''R''),
                    (''client_id'', ''cli-1''), (''client_secret'', ''s3cret'')]\<rparr>] \<and>
   disk (snd (EnsureAuthenticated (sample_env (Reply 200 token_body) 3600)
          (sample_world (Holds (sample_config [] ''R'' 0))))) =
     Holds \<lparr>AccessToken = ''A'', RefreshToken = ''B'', ExpiresAt = 8600000000000,
            APIURL = ''https://api.kamui-platform.com'', ClientID = ''cli-1'',
            ClientSecret = ''s3cret''\<rparr>"
proof -
  let ?e = "sample_env (Reply 200 token_body) 3600"
  let ?w = "sample_world (Holds (sample_config [] ''R'' 0))"
  let ?cfg = "(sample_config [] ''R'' 0)\<lparr>APIURL := DefaultAPIURL\<rparr>"
  have l: "Load ?w = Inr ?cfg"
    by simp
  have a: "AccessToken ?cfg = []" and r: "RefreshToken ?cfg \<noteq> []"
    by simp_all
  have s: "sint ((3600 :: 64 word) * Second) = 3600000000000"
    by (simp add: Second_def)
  show ?thesis
    using refresh_without_access_token [OF l a r, of ?e token_body
        "\<lparr>resp_AccessToken = ''A'', resp_TokenType = [], resp_ExpiresIn = 3600,
          resp_RefreshToken = ''B'', resp_Scope = ''full''\<rparr>"]
    by (simp add: s refresh_request_def SetClientCredentials_def NewOAuthFlow_def
        DefaultAPIURL_def sample_config_def Load_def json_reload_def json_string_ascii)
qed

lemma EnsureAuthenticated_valid:
  assumes "Load w = Inr cfg"
      and "AccessToken cfg \<noteq> []"
      and "ExpiresAt cfg \<noteq> 0"
      and "clock e (ticks w) + 60000000000 \<le> ExpiresAt cfg"
  shows "EnsureAuthenticated e w = (None, w\<lparr>ticks := Suc (ticks w)\<rparr>)"
  using assms by (simp add: EnsureAuthenticated_def Manager_IsLoggedIn_expiry)

text \<open>
  Claim C1, as the code has it. Let the loaded record have a refresh token and an expiry
  that is set, and let the token URL be accepted.

  If the expiry is less than 60 seconds ahead of the clock (or past), "ensure authenticated"
  and "get current access token" each send exactly one request, the refresh request. When it
  is answered with status 200 and a body that decodes, on a disk that accepts the write,
  "ensure authenticated" succeeds and the store holds the returned access and refresh
  tokens; when the returned \<open>expires_in\<close> is positive (and its nanoseconds fit the 64-bit
  duration) the stored expiry is the clock reading taken when the tokens are stored plus
  \<open>expires_in\<close> seconds; and "get current access token" returns the fresh access token if
  it is non-empty valid UTF-8, \<open>expires_in\<close> is positive, and the new expiry has not passed
  when the token is read. \<open>k\<close> is the index of the clock reading taken when the tokens
  are stored.

  If the record has an access token and the expiry is 60 seconds or more ahead of the clock,
  "ensure authenticated" succeeds and sends no request.
\<close>

theorem refresh_when_expired:
  fixes cfg :: Config and t :: TokenResponse and w :: world
  defines "flow \<equiv> SetClientCredentials (ClientID cfg) (ClientSecret cfg) (NewOAuthFlow (APIURL cfg))"
      and "k \<equiv> (if AccessToken cfg = [] then ticks w else Suc (ticks w))"
      and "n \<equiv> sint (resp_ExpiresIn t)"
  assumes "Load w = Inr cfg"
      and "RefreshToken cfg \<noteq> []"
      and "ExpiresAt cfg \<noteq> 0"
      and "url_fault e (APIURL cfg @ ''/oauth/token'') = None"
  shows "(ExpiresAt cfg < clock e (ticks w) + 60000000000 \<longrightarrow>
            requests (trace (snd (EnsureAuthenticated e w))) =
              requests (trace w) @ [refresh_request flow (RefreshToken cfg)] \<and>
            requests (trace (snd (GetAccessToken e w))) =
              requests (trace w) @ [refresh_request flow (RefreshToken cfg)] \<and>
            (roundtrip e (refresh_request flow (RefreshToken cfg)) = Reply 200 b \<and>
             json_token e b = Inr t \<and> write_fault e = None \<longrightarrow>
               fst (EnsureAuthenticated e w) = None \<and>
               (case disk (snd (EnsureAuthenticated e w)) of
                  Holds stored \<Rightarrow>
                    AccessToken stored = resp_AccessToken t \<and>
                    RefreshToken stored = resp_RefreshToken t \<and>
                    (0 < n \<and> n \<le> 9223372036 \<longrightarrow>
                       ExpiresAt stored = clock e k + n * 1000000000)
                | _ \<Rightarrow> False) \<and>
               (resp_AccessToken t \<noteq> [] \<and> utf8_valid (resp_AccessToken t) \<and>
                0 < n \<and> n \<le> 9223372036 \<and>
                clock e (Suc k) \<le> clock e k + n * 1000000000 \<longrightarrow>
                  fst (GetAccessToken e w) = Inr (resp_AccessToken t)))) \<and>
         (AccessToken cfg \<noteq> [] \<and> clock e (ticks w) + 60000000000 \<le> ExpiresAt cfg \<longrightarrow>
            fst (EnsureAuthenticated e w) = None \<and>
            requests (trace (snd (EnsureAuthenticated e w))) = requests (trace w))"
proof -
  have V: "fst (EnsureAuthenticated e w) = None \<and>
           requests (trace (snd (EnsureAuthenticated e w))) = requests (trace w)"
    if "AccessToken cfg \<noteq> []" "clock e (ticks w) + 60000000000 \<le> ExpiresAt cfg"
    using EnsureAuthenticated_valid [OF assms(4) that(1) assms(6) that(2)] by simp
  have R: "requests (trace (snd (EnsureAuthenticated e w))) =
              requests (trace w) @ [refresh_request flow (RefreshToken cfg)] \<and>
            requests (trace (snd (GetAccessToken e w))) =
              requests (trace w) @ [refresh_request flow (RefreshToken cfg)] \<and>
            (roundtrip e (refresh_request flow (RefreshToken cfg)) = Reply 200 b \<and>
             json_token e b = Inr t \<and> write_fault e = None \<longrightarrow>
               fst (EnsureAuthenticated e w) = None \<and>
               (case disk (snd (EnsureAuthenticated e w)) of
                  Holds stored \<Rightarrow>
                    AccessToken stored = resp_AccessToken t \<and>
                    RefreshToken stored = resp_RefreshToken t \<and>
                    (0 < n \<and> n \<le> 9223372036 \<longrightarrow>
                       ExpiresAt stored = clock e k + n * 1000000000)
                | _ \<Rightarrow> False) \<and>
               (resp_AccessToken t \<noteq> [] \<and> utf8_valid (resp_AccessToken t) \<and>
                0 < n \<and> n \<le> 9223372036 \<and>
                clock e (Suc k) \<le> clock e k + n * 1000000000 \<longrightarrow>
                  fst (GetAccessToken e w) = Inr (resp_AccessToken t)))"
    if expired: "ExpiresAt cfg < clock e (ticks w) + 60000000000"
  proof -
    have m: "Manager_IsLoggedIn e w = (False, w\<lparr>ticks := k\<rparr>)"
      using assms(4,6) expired
      by (cases "AccessToken cfg = []")
         (simp_all add: k_def Manager_IsLoggedIn_no_token Manager_IsLoggedIn_expiry)
    note sent = refresh_path_requests [OF assms(4,5) m assms(7)]
    have A: "requests (trace (snd (EnsureAuthenticated e w))) =
               requests (trace w) @ [refresh_request flow (RefreshToken cfg)]"
      using sent by (simp add: flow_def)
    have B: "requests (trace (snd (GetAccessToken e w))) =
               requests (trace w) @ [refresh_request flow (RefreshToken cfg)]"
      using A by (simp add: GetAccessToken_requests)
    have C: "fst (EnsureAuthenticated e w) = None \<and>
               (case disk (snd (EnsureAuthenticated e w)) of
                  Holds stored \<Rightarrow>
                    AccessToken stored = resp_AccessToken t \<and>
                    RefreshToken stored = resp_RefreshToken t \<and>
                    (0 < n \<and> n \<le> 9223372036 \<longrightarrow>
                       ExpiresAt stored = clock e k + n * 1000000000)
                | _ \<Rightarrow> False) \<and>
               (resp_AccessToken t \<noteq> [] \<and> utf8_valid (resp_AccessToken t) \<and>
                0 < n \<and> n \<le> 9223372036 \<and>
                clock e (Suc k) \<le> clock e k + n * 1000000000 \<longrightarrow>
                  fst (GetAccessToken e w) = Inr (resp_AccessToken t))"
      if ok: "roundtrip e (refresh_request flow (RefreshToken cfg)) = Reply 200 b"
         "json_token e b = Inr t" "write_fault e = None"
    proof -
      obtain r w3 where ea: "EnsureAuthenticated e w = (r, w3)"
        by (cases "EnsureAuthenticated e w")
      let ?E = "if 0 < sint (resp_ExpiresIn t)
                then clock e k + sint (resp_ExpiresIn t * Second) else ExpiresAt cfg"
      let ?stored = "cfg\<lparr>AccessToken := resp_AccessToken t,
                          RefreshToken := resp_RefreshToken t, ExpiresAt := ?E\<rparr>"
      note su = refresh_path_success [OF assms(4,5) m assms(7) ok(1) [unfolded flow_def] ok(2,3)]
      from su have none: "r = None"
        and d: "disk w3 = Holds ?stored"
        and tk: "ticks w3 = (if 0 < sint (resp_ExpiresIn t) then Suc k else k)"
        by (simp_all add: ea)
      have exp: "ExpiresAt ?stored = clock e k + n * 1000000000"
        if "0 < n" "n \<le> 9223372036"
        using that sint_seconds [of "resp_ExpiresIn t"] by (simp add: n_def)
      have get: "fst (GetAccessToken e w) = Inr (resp_AccessToken t)"
        if pos: "resp_AccessToken t \<noteq> []" "utf8_valid (resp_AccessToken t)" "0 < n"
           "n \<le> 9223372036" "clock e (Suc k) \<le> clock e k + n * 1000000000"
      proof -
        obtain loaded where l3: "Load w3 = Inr loaded"
          and a3: "AccessToken loaded = resp_AccessToken t"
          and e3: "ExpiresAt loaded = ExpiresAt ?stored"
          using d pos(2) by (simp add: Load_def json_reload_def json_string_valid)
        have a3': "AccessToken loaded \<noteq> []"
          using pos(1) a3 by simp
        have t3: "ticks w3 = Suc k"
          using tk pos(3) by (simp add: n_def)
        have g: "GetAccessToken e w = Manager_GetAccessToken e w3"
          by (simp add: GetAccessToken_def ea none)
        show ?thesis
        proof (cases "ExpiresAt loaded = 0")
          case True
          from Manager_GetAccessToken_no_expiry [OF l3 a3' True, of e] show ?thesis
            by (simp add: g a3)
        next
          case False
          have "\<not> ExpiresAt loaded < clock e (ticks w3)"
            using exp [OF pos(3,4)] pos(5) e3 by (simp only: t3)
          with Manager_GetAccessToken_expiry [OF l3 a3' False, of e] show ?thesis
            by (simp add: g a3)
        qed
      qed
      have "fst (EnsureAuthenticated e w) = None"
        and "disk (snd (EnsureAuthenticated e w)) = Holds ?stored"
        using none d by (simp_all add: ea)
      then show ?thesis
        using exp get by simp
    qed
    show ?thesis
      using A B C by blast
  qed
  show ?thesis
    using V R by blast
qed

theorem refresh_when_expired_witness:
  "Load (sample_world (Holds (sample_config ''old'' ''R'' 4000000000000))) =
     Inr ((sample_config ''old'' ''R'' 4000000000000)\<lparr>APIURL := DefaultAPIURL\<rparr>) \<and>
   (4000000000000 :: int) < clock (sample_env (Reply 200 token_body) 3600) 0 + 60000000000 \<and>
   requests (trace (snd (GetAccessToken (sample_env (Reply 200 token_body) 3600)
          (sample_world (Holds (sample_config ''old'' ''R'' 4000000000000)))))) =
     [\<lparr>url = ''https://api.kamui-platform.com/oauth/token'',
       content_type = ''application/x-www-form-urlencoded'',
       body = Form [(''grant_type'', ''refresh_token''), (''refresh_token'', ''R''),
                    (''client_id'', ''cli-1''), (''client_secret'', ''s3cret'')]\<rparr>] \<and>
   fst (EnsureAuthenticated (sample_env (Reply 200 token_body) 3600)
          (sample_world (Holds (sample_config ''old'' ''R'' 4000000000000)))) = None \<and>
   (case disk (snd (EnsureAuthenticated (sample_env (Reply 200 token_body) 3600)
                 (sample_world (Holds (sample_config ''old'' ''R'' 4000000000000))))) of
      Holds stored \<Rightarrow>
        AccessToken stored = ''A'' \<and> RefreshToken stored = ''B'' \<and>
        ExpiresAt stored = clock (sample_env (Reply 200 token_body) 3600) 1 + 3600 * 1000000000
    | _ \<Rightarrow> False) \<and>
   fst (GetAccessToken (sample_env (Reply 200 token_body) 3600)
          (sample_world (Holds (sample_config ''old'' ''R'' 4000000000000)))) = Inr ''A'' \<and>
   clock (sample_env (Reply 200 token_body) 3600) 0 + 60000000000 \<le> 8600000000000 \<and>
   fst (EnsureAuthenticated (sample_env (Reply 200 token_body) 3600)
          (sample_world (Holds (sample_config ''old'' ''R'' 8600000000000)))) = None \<and>
   requests (trace (snd (EnsureAuthenticated (sample_env (Reply 200 token_body) 3600)
          (sample_world (Holds (sample_config ''old'' ''R'' 8600000000000)))))) = []"
proof -
  let ?e = "sample_env (Reply 200 token_body) 3600"
  let ?w = "sample_world (Holds (sample_config ''old'' ''R'' 4000000000000))"
  let ?cfg = "(sample_config ''old'' ''R'' 4000000000000)\<lparr>APIURL := DefaultAPIURL\<rparr>"
  let ?w' = "sample_world (Holds (sample_config ''old'' ''R'' 8600000000000))"
  let ?cfg' = "(sample_config ''old'' ''R'' 8600000000000)\<lparr>APIURL := DefaultAPIURL\<rparr>"
  have l: "Load ?w = Inr ?cfg" and l': "Load ?w' = Inr ?cfg'"
    by simp_all
  have r: "RefreshToken ?cfg \<noteq> []" and z: "ExpiresAt ?cfg \<noteq> 0"
    and u: "url_fault ?e (APIURL ?cfg @ ''/oauth/token'') = None"
    and r': "RefreshToken ?cfg' \<noteq> []" and z': "ExpiresAt ?cfg' \<noteq> 0"
    and u': "url_fault ?e (APIURL ?cfg' @ ''/oauth/token'') = None"
    by simp_all
  have v: "utf8_valid ''A''"
    by (simp add: utf8_valid_ascii)
  show ?thesis
    using refresh_when_expired [OF l r z u, of token_body
        "\<lparr>resp_AccessToken = ''A'', resp_TokenType = [], resp_ExpiresIn = 3600,
          resp_RefreshToken = ''B'', resp_Scope = ''full''\<rparr>"]
      refresh_when_expired [OF l' r' z' u', of token_body
        "\<lparr>resp_AccessToken = ''A'', resp_TokenType = [], resp_ExpiresIn = 3600,
          resp_RefreshToken = ''B'', resp_Scope = ''full''\<rparr>"] v
    by (simp add: refresh_request_def SetClientCredentials_def NewOAuthFlow_def
        DefaultAPIURL_def cong: file_state.case_cong)
qed

text \<open>
  The claim as the specification words it counts an expiry exactly 60 seconds ahead as
  within 60 seconds. There the code takes the session for valid and does not refresh: no
  request is sent and the stored access token is returned.
\<close>

theorem refresh_boundary_counterexample:
  "RefreshToken (sample_config ''old'' ''R'' 5060000000000) \<noteq> [] \<and>
   ExpiresAt (sample_config ''old'' ''R'' 5060000000000) =
     clock (sample_env (Reply 200 token_body) 3600) 0 + 60000000000 \<and>
   fst (EnsureAuthenticated (sample_env (Reply 200 token_body) 3600)
          (sample_world (Holds (sample_config ''old'' ''R'' 5060000000000)))) = None \<and>
   requests (trace (snd (EnsureAuthenticated (sample_env (Reply 200 token_body) 3600)
          (sample_world (Holds (sample_config ''old'' ''R'' 5060000000000)))))) = [] \<and>
   fst (GetAccessToken (sample_env (Reply 200 token_body) 3600)
          (sample_world (Holds (sample_config ''old'' ''R'' 5060000000000)))) = Inr ''old''"
  by (simp add: GetAccessToken_def Manager_GetAccessToken_def EnsureAuthenticated_def
      Manager_IsLoggedIn_def IsZero_def Now_def After_def Add_def)

text \<open>
  What the theorem above leaves open: a refresh answered without a positive \<open>expires_in\<close>.
  \<open>SaveTokens\<close> then stores the new tokens and keeps the old expiry, so that after a
  successful refresh of a session whose expiry has passed, "get current access token"
  reports the fresh token as expired.
\<close>

lemma stale_expiry_after_refresh:
  "fst (EnsureAuthenticated (sample_env (Reply 200 token_body) 0)
          (sample_world (Holds (sample_config ''old'' ''R'' 4000000000000)))) = None \<and>
   disk (snd (EnsureAuthenticated (sample_env (Reply 200 token_body) 0)
          (sample_world (Holds (sample_config ''old'' ''R'' 4000000000000))))) =
     Holds \<lparr>AccessToken = ''A'', RefreshToken = ''B'', ExpiresAt = 4000000000000,
            APIURL = ''https://api.kamui-platform.com'', ClientID = ''cli-1'',
            ClientSecret = ''s3cret''\<rparr> \<and>
   fst (GetAccessToken (sample_env (Reply 200 token_body) 0)
          (sample_world (Holds (sample_config ''old'' ''R'' 4000000000000)))) =
     Inl ''token expired''"
proof -
  let ?e = "sample_env (Reply 200 token_body) 0"
  let ?w = "sample_world (Holds (sample_config ''old'' ''R'' 4000000000000))"
  let ?cfg = "(sample_config ''old'' ''R'' 4000000000000)\<lparr>APIURL := DefaultAPIURL\<rparr>"
  let ?t = "\<lparr>resp_AccessToken = ''A'', resp_TokenType = [], resp_ExpiresIn = 0,
          resp_RefreshToken = ''B'', resp_Scope = ''full''\<rparr>"
  obtain r w3 where ea: "EnsureAuthenticated ?e ?w = (r, w3)"
    by (cases "EnsureAuthenticated ?e ?w")
  have l: "Load ?w = Inr ?cfg"
    by simp
  have m: "Manager_IsLoggedIn ?e ?w = (False, ?w\<lparr>ticks := Suc 0\<rparr>)"
    using Manager_IsLoggedIn_expiry [OF l, of ?e] by simp
  have su: "fst (EnsureAuthenticated ?e ?w) = None \<and>
         disk (snd (EnsureAuthenticated ?e ?w)) =
           Holds (?cfg\<lparr>AccessToken := resp_AccessToken ?t, RefreshToken := resp_RefreshToken ?t,
                      ExpiresAt := (if 0 < sint (resp_ExpiresIn ?t)
                                    then clock ?e (Suc 0) + sint (resp_ExpiresIn ?t * Second)
                                    else ExpiresAt ?cfg)\<rparr>) \<and>
         ticks (snd (EnsureAuthenticated ?e ?w)) =
           (if 0 < sint (resp_ExpiresIn ?t) then Suc (Suc 0) else Suc 0)"
    by (rule refresh_path_success [OF l _ m, of token_body]) simp_all
  then have none: "r = None"
    and d0: "disk w3 = Holds (?cfg\<lparr>AccessToken := ''A'', RefreshToken := ''B''\<rparr>)"
    and tk: "ticks w3 = Suc 0"
    by (simp_all add: ea)
  have d: "disk w3 = Holds \<lparr>AccessToken = ''A'', RefreshToken = ''B'', ExpiresAt = 4000000000000,
            APIURL = ''https://api.kamui-platform.com'', ClientID = ''cli-1'',
            ClientSecret = ''s3cret''\<rparr>"
    using d0 by (simp add: sample_config_def DefaultAPIURL_def)
  have "fst (Manager_GetAccessToken ?e w3) = Inl ''token expired''"
    by (simp add: Manager_GetAccessToken_def Load_def json_reload_def json_string_ascii d tk
        IsZero_def Now_def After_def)
  then show ?thesis
    using none d by (simp add: GetAccessToken_def ea)
qed


section \<open>The flow engine: errors from the HTTP status\<close>

lemma show_int_422: "show_int 422 = ''422''"
  by (simp add: show_int_def show_nat.simps digit_def)

lemma show_int_9877: "show_int 9877 = ''9877''"
  by (simp add: show_int_def show_nat.simps digit_def)

lemma RegisterClient_status:
  assumes "url_fault e (apiURL flow @ ''/oauth/register'') = None"
      and "roundtrip e (registration_request flow uri) = Reply st b"
      and "st \<noteq> 201" and "st \<noteq> 200"
  shows "RegisterClient e flow uri w =
           (Inl (''client registration failed with status '' @ show_int st),
            emit (Sent (registration_request flow uri)) w)"
  using assms by (simp add: RegisterClient_def client_Do_def)

lemma RefreshTokens_status:
  assumes "url_fault e (apiURL flow @ ''/oauth/token'') = None"
      and "roundtrip e (refresh_request flow rt) = Reply st b"
      and "st \<noteq> 200"
  shows "RefreshTokens e flow rt w =
           (Inl (''token refresh failed with status '' @ show_int st),
            emit (Sent (refresh_request flow rt)) w)"
  using assms by (simp add: RefreshTokens_def client_Do_def)

lemma exchangeCodeForTokens_status:
  assumes "url_fault e (apiURL flow @ ''/oauth/token'') = None"
      and "roundtrip e (exchange_request flow code uri) = Reply st b"
      and "st \<noteq> 200"
  shows "exchangeCodeForTokens e flow code uri w =
           (Inl (''token exchange failed with status '' @ show_int st),
            emit (Sent (exchange_request flow code uri)) w)"
  using assms by (simp add: exchangeCodeForTokens_def client_Do_def)

text \<open>
  Claim C6, as the code has it. When the registration call is answered with a status other
  than 200 and 201, or the token-exchange or refresh call with a status other than 200, the
  error returned is the generic "failed with status N" message of that call, whatever the
  body of the response: the flow engine does not read the body of a failed call.
\<close>

theorem status_errors_ignore_body:
  assumes "url_fault e (apiURL flow @ ''/oauth/register'') = None"
      and "url_fault e (apiURL flow @ ''/oauth/token'') = None"
  shows "(roundtrip e (registration_request flow uri) = Reply st b \<and> st \<noteq> 201 \<and> st \<noteq> 200 \<longrightarrow>
            fst (RegisterClient e flow uri w) =
              Inl (''client registration failed with status '' @ show_int st)) \<and>
         (roundtrip e (exchange_request flow code uri) = Reply st b \<and> st \<noteq> 200 \<longrightarrow>
            fst (exchangeCodeForTokens e flow code uri w) =
              Inl (''token exchange failed with status '' @ show_int st)) \<and>
         (roundtrip e (refresh_request flow rt) = Reply st b \<and> st \<noteq> 200 \<longrightarrow>
            fst (RefreshTokens e flow rt w) =
              Inl (''token refresh failed with status '' @ show_int st))"
  using assms
  by (simp add: RegisterClient_status exchangeCodeForTokens_status RefreshTokens_status)

theorem status_errors_ignore_body_witness:
  "url_fault (sample_env (Reply 422 message_body) 3600)
     (apiURL (NewOAuthFlow DefaultAPIURL) @ ''/oauth/register'') = None \<and>
   url_fault (sample_env (Reply 422 message_body) 3600)
     (apiURL (NewOAuthFlow DefaultAPIURL) @ ''/oauth/token'') = None \<and>
   fst (RegisterClient (sample_env (Reply 422 message_body) 3600) (NewOAuthFlow DefaultAPIURL)
          ''http://localhost:9877/callback'' (sample_world NotExist)) =
     Inl ''client registration failed with status 422'' \<and>
   fst (exchangeCodeForTokens (sample_env (Reply 422 message_body) 3600)
          (NewOAuthFlow DefaultAPIURL) ''XYZ'' ''http://localhost:9877/callback''
          (sample_world NotExist)) =
     Inl ''token exchange failed with status 422'' \<and>
   fst (RefreshTokens (sample_env (Reply 422 message_body) 3600) (NewOAuthFlow DefaultAPIURL)
          ''R'' (sample_world NotExist)) =
     Inl ''token refresh failed with status 422''"
  using status_errors_ignore_body [where e = "sample_env (Reply 422 message_body) 3600"
      and flow = "NewOAuthFlow DefaultAPIURL" and uri = "''http://localhost:9877/callback''"
      and st = 422 and b = message_body and code = "''XYZ''" and rt = "''R''"
      and w = "sample_world NotExist"]
  by (simp add: show_int_422)

text \<open>
  The claim as stated fails: a registration answered with status 422 and a body that
  carries a message returns the generic error, in which the message does not occur.
\<close>

theorem error_message_counterexample:
  "sublist ''redirect_uris is invalid'' message_body \<and>
   fst (RegisterClient (sample_env (Reply 422 message_body) 3600) (NewOAuthFlow DefaultAPIURL)
          ''http://localhost:9877/callback'' (sample_world NotExist)) =
     Inl ''client registration failed with status 422'' \<and>
   \<not> sublist ''redirect_uris is invalid'' ''client registration failed with status 422''"
proof -
  have "sublist ''redirect_uris is invalid'' message_body"
    unfolding message_body_def by code_simp
  moreover have "\<not> sublist ''redirect_uris is invalid'' ''client registration failed with status 422''"
    by code_simp
  moreover have "fst (RegisterClient (sample_env (Reply 422 message_body) 3600)
          (NewOAuthFlow DefaultAPIURL) ''http://localhost:9877/callback'' (sample_world NotExist)) =
     Inl ''client registration failed with status 422''"
    by (simp add: RegisterClient_def client_Do_def show_int_422)
  ultimately show ?thesis
    by blast
qed

section \<open>The callback handler\<close>

lemma hex_sample: "hex_EncodeToString (replicate 16 171) = ''abababababababababababababababab''"
  by code_simp

lemma Login_authorize_state_mismatch:
  assumes "generateRandomState e = Inr nonce"
      and "first_wakeup e = Callback q"
      and "Get q ''state'' \<noteq> nonce"
  shows "fst (Login_authorize e flow port uri w) = Inl ''state mismatch'' \<and>
         requests (trace (snd (snd (Login_authorize e flow port uri w)))) = requests (trace w)"
  using assms
  by (simp add: Login_authorize_def callback_handler_def Let_def startCallbackServer_def
      server_Shutdown_def net_Listen_def emit_def requests_append split: option.splits)

text \<open>
  Claim C5. A parameter's value is what \<open>Query().Get\<close> returns: the first value given
  for the key, empty when the key is absent. Whenever the value of \<open>state\<close> differs from
  the nonce the handler sends the state-mismatch error and no code, whatever the other
  parameters are; it sends a code only when \<open>state\<close> equals the nonce, \<open>error\<close> is empty
  and \<open>code\<close> is non-empty, and then it sends that code. In \<open>Login\<close>, a first callback
  with a wrong state ends the login with the state-mismatch error, and no token request is
  sent.
\<close>

theorem callback_state_check:
  "(Get q ''state'' \<noteq> nonce \<longrightarrow>
      delivered (callback_handler nonce q) = Inl ''state mismatch'') \<and>
   (delivered (callback_handler nonce q) = Inr code \<longrightarrow>
      Get q ''state'' = nonce \<and> Get q ''error'' = [] \<and> Get q ''code'' \<noteq> [] \<and>
      code = Get q ''code'') \<and>
   (Get q ''state'' = nonce \<and> Get q ''error'' = [] \<and> Get q ''code'' \<noteq> [] \<longrightarrow>
      delivered (callback_handler nonce q) = Inr (Get q ''code'')) \<and>
   (generateRandomState e = Inr nonce \<and> first_wakeup e = Callback q \<and>
    Get q ''state'' \<noteq> nonce \<longrightarrow>
      fst (Login_authorize e flow port uri w) = Inl ''state mismatch'' \<and>
      requests (trace (snd (snd (Login_authorize e flow port uri w)))) = requests (trace w))"
  using Login_authorize_state_mismatch [of e nonce q flow port uri w]
  by (auto simp: callback_handler_def)

theorem callback_state_check_witness:
  "Get [(''code'', ''XYZ''), (''state'', ''wrong'')] ''state'' \<noteq> ''abc123'' \<and>
   delivered (callback_handler ''abc123'' [(''code'', ''XYZ''), (''state'', ''wrong'')]) =
     Inl ''state mismatch'' \<and>
   Get [(''code'', ''XYZ''), (''state'', ''abc123'')] ''state'' = ''abc123'' \<and>
   Get [(''code'', ''XYZ''), (''state'', ''abc123'')] ''error'' = [] \<and>
   delivered (callback_handler ''abc123'' [(''code'', ''XYZ''), (''state'', ''abc123'')]) =
     Inr ''XYZ'' \<and>
   generateRandomState
     ((sample_env (NoReply ''refused'') 3600)
        \<lparr>first_wakeup := Callback [(''code'', ''XYZ''), (''state'', ''wrong'')]\<rparr>) =
     Inr ''abababababababababababababababab'' \<and>
   fst (Login_authorize
          ((sample_env (NoReply ''refused'') 3600)
             \<lparr>first_wakeup := Callback [(''code'', ''XYZ''), (''state'', ''wrong'')]\<rparr>)
          (NewOAuthFlow DefaultAPIURL) 9877 ''http://localhost:9877/callback''
          (sample_world NotExist)) = Inl ''state mismatch'' \<and>
   requests (trace (snd (snd (Login_authorize
          ((sample_env (NoReply ''refused'') 3600)
             \<lparr>first_wakeup := Callback [(''code'', ''XYZ''), (''state'', ''wrong'')]\<rparr>)
          (NewOAuthFlow DefaultAPIURL) 9877 ''http://localhost:9877/callback''
          (sample_world NotExist))))) = []"
proof -
  let ?e = "(sample_env (NoReply ''refused'') 3600)
              \<lparr>first_wakeup := Callback [(''code'', ''XYZ''), (''state'', ''wrong'')]\<rparr>"
  have g: "generateRandomState ?e = Inr ''abababababababababababababababab''"
    by (simp add: generateRandomState_def sample_env_def hex_sample)
  have f: "first_wakeup ?e = Callback [(''code'', ''XYZ''), (''state'', ''wrong'')]"
    by simp
  show ?thesis
    using callback_state_check [where q = "[(''code'', ''XYZ''), (''state'', ''wrong'')]"
        and nonce = "''abc123''"]
      callback_state_check [where q = "[(''code'', ''XYZ''), (''state'', ''abc123'')]"
        and nonce = "''abc123''"]
      callback_state_check [where q = "[(''code'', ''XYZ''), (''state'', ''wrong'')]"
        and nonce = "''abababababababababababababababab''" and e = ?e
        and flow = "NewOAuthFlow DefaultAPIURL" and port = 9877
        and uri = "''http://localhost:9877/callback''" and w = "sample_world NotExist"]
      g f
    by (simp add: Get_def)
qed

section \<open>Login when registration fails\<close>

lemma probe_found:
  "probe e p n w = (Inr port, w1) \<Longrightarrow>
   w1 = listener_Close port (emit (Bound port) (w\<lparr>bound := port # bound w\<rparr>)) \<and>
   \<not> port_taken e port \<and> p \<le> port \<and> port < p + int n"
proof (induction n arbitrary: p)
  case 0
  then show ?case by simp
next
  case (Suc n)
  show ?case
  proof (cases "port_taken e p \<or> p \<in> set (bound w)")
    case True
    with Suc.prems have "probe e (p + 1) n w = (Inr port, w1)"
      by (simp add: net_Listen_def)
    from Suc.IH [OF this] show ?thesis
      by simp
  next
    case False
    with Suc.prems show ?thesis
      by (auto simp: net_Listen_def)
  qed
qed

lemma findAvailablePort_found:
  assumes "fst (findAvailablePort e flow w) = Inr port"
  shows "trace (snd (findAvailablePort e flow w)) = trace w @ [Bound port, Released port] \<and>
         bound (snd (findAvailablePort e flow w)) = bound w \<and>
         disk (snd (findAvailablePort e flow w)) = disk w"
proof -
  obtain w1 where "probe e (callbackPort flow) 10 w = (Inr port, w1)"
    using assms by (cases "findAvailablePort e flow w") (simp add: findAvailablePort_def)
  from probe_found [OF this] this show ?thesis
    by (simp add: findAvailablePort_def listener_Close_def emit_def)
qed

text \<open>
  Claim C9. Let \<open>Login\<close> run without client credentials, let the port probe find a port,
  and let the registration call be answered with a status other than 200 and 201. Then
  \<open>Login\<close> returns the registration error, and all it has done is: bind the probed port
  and release it at once, print the registration notice, and send the registration request.
  The callback server was not started, the authorization URL was neither opened nor printed,
  and the ports held by the process are those held before.
\<close>

theorem Login_registration_failure:
  fixes port :: int
  defines "redirectURI \<equiv> ''http://localhost:'' @ show_int port @ ''/callback''"
  assumes "clientID flow = []"
      and "fst (findAvailablePort e flow w) = Inr port"
      and "url_fault e (apiURL flow @ ''/oauth/register'') = None"
      and "roundtrip e (registration_request flow redirectURI) = Reply st b"
      and "st \<noteq> 201" and "st \<noteq> 200"
  shows "fst (Login e flow w) =
           Inl (''failed to register client: client registration failed with status '' @
                show_int st) \<and>
         trace (snd (snd (Login e flow w))) =
           trace w @ [Bound port, Released port,
                      Printed ''Registering CLI with Kamui Platform...'',
                      Sent (registration_request flow redirectURI)] \<and>
         bound (snd (snd (Login e flow w))) = bound w"
proof -
  obtain w1 where f: "findAvailablePort e flow w = (Inr port, w1)"
    using assms(3) by (cases "findAvailablePort e flow w") simp
  from findAvailablePort_found [OF assms(3)] f
  have t1: "trace w1 = trace w @ [Bound port, Released port]" and b1: "bound w1 = bound w"
    by simp_all
  let ?w2 = "emit (Printed ''Registering CLI with Kamui Platform...'') w1"
  have L: "Login e flow w =
             (case RegisterClient e flow redirectURI ?w2 of
                (Inl x, w3) \<Rightarrow> (Inl (''failed to register client: '' @ x), flow, w3)
              | (Inr creds, w3) \<Rightarrow>
                  Login_authorize e
                    (flow\<lparr>clientID := creds_ClientID creds,
                          clientSecret := creds_ClientSecret creds\<rparr>)
                    port redirectURI w3)"
    unfolding Login_def f redirectURI_def Let_def using assms(2) by simp
  note reg = RegisterClient_status [OF assms(4-7), of ?w2]
  show ?thesis
    unfolding L reg by (simp add: t1 b1 emit_def)
qed

theorem Login_registration_failure_witness:
  "clientID (NewOAuthFlow DefaultAPIURL) = [] \<and>
   fst (findAvailablePort (sample_env (Reply 422 message_body) 3600)
          (NewOAuthFlow DefaultAPIURL) (sample_world NotExist)) = Inr 9877 \<and>
   fst (Login (sample_env (Reply 422 message_body) 3600) (NewOAuthFlow DefaultAPIURL)
          (sample_world NotExist)) =
     Inl ''failed to register client: client registration failed with status 422'' \<and>
   trace (snd (snd (Login (sample_env (Reply 422 message_body) 3600)
          (NewOAuthFlow DefaultAPIURL) (sample_world NotExist)))) =
     [Bound 9877, Released 9877, Printed ''Registering CLI with Kamui Platform...'',
      Sent \<lparr>url = ''https://api.kamui-platform.com/oauth/register'',
            content_type = ''application/json'',
            body = RegistrationJSON ''Kamui CLI'' [''http://localhost:9877/callback'']
                     [''authorization_code'', ''refresh_token''] ''full''\<rparr>] \<and>
   bound (snd (snd (Login (sample_env (Reply 422 message_body) 3600)
          (NewOAuthFlow DefaultAPIURL) (sample_world NotExist)))) = []"
proof -
  let ?e = "sample_env (Reply 422 message_body) 3600"
  let ?flow = "NewOAuthFlow DefaultAPIURL"
  let ?w = "sample_world NotExist"
  have c: "clientID ?flow = []"
    by (simp add: NewOAuthFlow_def)
  have p: "fst (findAvailablePort ?e ?flow ?w) = Inr 9877"
    by (simp add: findAvailablePort_def NewOAuthFlow_def DefaultCallbackPort_def net_Listen_def
        eval_nat_numeral)
  have u: "url_fault ?e (apiURL ?flow @ ''/oauth/register'') = None"
    by simp
  have r: "roundtrip ?e (registration_request ?flow
             (''http://localhost:'' @ show_int 9877 @ ''/callback'')) = Reply 422 message_body"
    by simp
  have s: "(422 :: int) \<noteq> 201" "(422 :: int) \<noteq> 200"
    by simp_all
  show ?thesis
    using Login_registration_failure [OF c p u r s] c p
    by (simp add: show_int_422 show_int_9877 registration_request_def NewOAuthFlow_def
        DefaultAPIURL_def DefaultClientName_def)
qed

end
